theory Spec2Isabelle
  imports Complex_Main "HOL-Library.Log_Nat" "HOL-Library.Sublist"
begin

section \<open>Python floats\<close>

text \<open>
  Python's \<open>float\<close> is an IEEE 754 binary64 number. Every float is a rational, and every
  arithmetic operation returns the exact result rounded to the nearest float, ties to the
  even mantissa. \<open>fl\<close> is that rounding for values in the normal range (all the values the
  image normalizer meets are: pixel counts, ratios of pixel counts and the literals
  0.1, 0.3, 0.8); a float operation \<open>a op b\<close> of the source is written \<open>fl (a op b)\<close>.
\<close>

definition pow2 :: "int \<Rightarrow> rat" where
  "pow2 e = (if 0 \<le> e then 2 ^ nat e else 1 / 2 ^ nat (- e))"

definition exponent :: "rat \<Rightarrow> int" where
  \<comment> \<open>for \<open>0 < a\<close>: the \<open>e\<close> with \<open>2 ^ e \<le> a < 2 ^ (e + 1)\<close>\<close>
  "exponent a = (let (n, d) = quotient_of a; e0 = bitlen n - bitlen d
                 in if pow2 e0 \<le> a then e0 else e0 - 1)"

definition round_half_even :: "rat \<Rightarrow> int" where
  "round_half_even q =
     (let f = \<lfloor>q\<rfloor>; r = q - of_int f
      in if r < 1 / 2 then f else if 1 / 2 < r then f + 1 else if even f then f else f + 1)"

definition fl :: "rat \<Rightarrow> rat" where
  "fl x = (if x = 0 then 0
           else let a = \<bar>x\<bar>; u = pow2 (exponent a - 52)
                in sgn x * of_int (round_half_even (a / u)) * u)"

section \<open>The image normalizer: \<open>FacePlusPlusManager.resize_image_if_needed\<close>\<close>

text \<open>
  The normalizer reads three things of its input: whether the imaging library decodes it,
  the pixel size of the decoded image, and the byte length of each JPEG encoding it asks
  for. An image is modelled by exactly these. \<open>decoded\<close> is \<open>None\<close> when \<open>Image.open\<close>
  raises. \<open>jpeg_size w h q\<close> is the length of the JPEG written by \<open>save\<close> at quality \<open>q\<close>
  for the working image at \<open>w \<times> h\<close> pixels, \<open>None\<close> when the library raises there (the
  source converts the modes \<open>RGBA\<close>, \<open>LA\<close> and \<open>P\<close> only, and the JPEG writer refuses others).
  \<open>raw_size\<close> is \<open>len(image_data)\<close>, the length of the bytes the exception handler returns.
\<close>

record image =
  raw_size :: nat
  decoded :: "(nat \<times> nat) option"
  jpeg_size :: "nat \<Rightarrow> nat \<Rightarrow> nat \<Rightarrow> nat option"

text \<open>
  The three \<open>return output.getvalue()\<close> statements of the source are told apart by a tag:
  the quality loop (line 104), the dimension loop (line 129), the last resort (line 140).
  \<open>Fallback\<close> is \<open>return image_data\<close> of the exception handler (line 144).
\<close>

datatype stage = QualityLadder | DimensionLadder | LastResort

datatype payload =
    Fallback
  | Encoded stage nat nat nat nat  \<comment> \<open>stage, width, height, quality, bytes\<close>

datatype outcome = Returned payload | Raised | Continue

definition payload_size :: "image \<Rightarrow> payload \<Rightarrow> nat" where
  \<comment> \<open>the length of the bytes returned for the image \<open>img\<close>\<close>
  "payload_size img p = (case p of Fallback \<Rightarrow> raw_size img | Encoded st w h q n \<Rightarrow> n)"

type_synonym encode_step = "nat \<times> nat \<times> nat"  \<comment> \<open>width, height, quality of one \<open>save\<close>\<close>

definition min_dimension :: nat where
  "min_dimension = 48"

definition fits :: "nat \<Rightarrow> nat \<Rightarrow> bool" where
  \<comment> \<open>\<open>size_mb = output.tell() / (1024 * 1024)\<close>; \<open>size_mb <= max_size_mb\<close>\<close>
  "fits n max_size_mb \<longleftrightarrow> fl (of_nat n / (1024 * 1024)) \<le> of_nat max_size_mb"

text \<open>
  \<open>Image.thumbnail\<close> belongs to the imaging library (Pillow 9.1 or later, which the source's
  \<open>Image.Resampling\<close> requires), not to the repository. Its size computation is transcribed
  from the library: the requested box is \<open>(x, y)\<close>, the image is \<open>w \<times> h\<close>.
\<close>

definition round_aspect :: "rat \<Rightarrow> (int \<Rightarrow> rat) \<Rightarrow> int" where
  \<comment> \<open>\<open>max(min(math.floor(number), math.ceil(number), key=key), 1)\<close>\<close>
  "round_aspect number key =
     max (if key \<lceil>number\<rceil> < key \<lfloor>number\<rfloor> then \<lceil>number\<rceil> else \<lfloor>number\<rfloor>) 1"

definition thumbnail :: "nat \<times> nat \<Rightarrow> nat \<times> nat \<Rightarrow> (nat \<times> nat) option" where
  "thumbnail box sz =
     (let (x, y) = box; (w, h) = sz
      in if x \<ge> w \<and> y \<ge> h then Some (w, h)
         else if h = 0 \<or> y = 0 then None
         else
           let aspect = fl (of_nat w / of_nat h)
           in if fl (of_nat x / of_nat y) \<ge> aspect
              then Some (nat (round_aspect (fl (of_nat y * aspect))
                               (\<lambda>n. \<bar>fl (aspect - fl (of_int n / of_nat y))\<bar>)), y)
              else Some (x, nat (round_aspect (fl (of_nat x / aspect))
                               (\<lambda>n. if n = 0 then 0
                                    else \<bar>fl (aspect - fl (of_nat x / of_int n))\<bar>))))"

definition upscale :: "nat \<times> nat \<Rightarrow> (nat \<times> nat) option" where
  \<comment> \<open>lines 81 to 88; \<open>None\<close> is the \<open>ZeroDivisionError\<close> of \<open>min_dimension / min(width, height)\<close>\<close>
  "upscale sz =
     (let (width, height) = sz
      in if min width height < min_dimension
         then if min width height = 0 then None
              else let scale = fl (of_nat min_dimension / of_nat (min width height))
                   in Some (nat \<lfloor>fl (of_nat width * scale)\<rfloor>, nat \<lfloor>fl (of_nat height * scale)\<rfloor>)
         else Some (width, height))"

function quality_loop ::
  "image \<Rightarrow> nat \<Rightarrow> nat \<Rightarrow> nat \<Rightarrow> nat \<Rightarrow> encode_step list \<Rightarrow> outcome \<times> encode_step list" where
  "quality_loop img max_size_mb width height quality acc =
     (if quality > 20
      then (case jpeg_size img width height quality of
              None \<Rightarrow> (Raised, acc @ [(width, height, quality)])
            | Some n \<Rightarrow>
                if fits n max_size_mb
                then (Returned (Encoded QualityLadder width height quality n),
                      acc @ [(width, height, quality)])
                else quality_loop img max_size_mb width height (quality - 5)
                       (acc @ [(width, height, quality)]))
      else (Continue, acc))"
  by pat_completeness auto
termination
  by (relation "measure (\<lambda>(img, m, w, h, q, acc). q)") auto

declare quality_loop.simps [simp del]

text \<open>
  The dimension loop subtracts the float 0.1 from a float until it is no longer above the
  float 0.3. Whether that ends depends on float rounding, so the loop is a partial function:
  \<open>None\<close> is a run that never ends.
\<close>

partial_function (option) scale_loop ::
  "image \<Rightarrow> nat \<Rightarrow> nat \<Rightarrow> nat \<Rightarrow> rat \<Rightarrow> encode_step list
     \<Rightarrow> (outcome \<times> encode_step list) option" where
  "scale_loop img max_size_mb width height scale acc =
     (if scale > fl (3 / 10)
      then
        let new_width = nat \<lfloor>fl (of_nat width * scale)\<rfloor>;
            new_height = nat \<lfloor>fl (of_nat height * scale)\<rfloor>
        in if min new_width new_height < min_dimension then Some (Continue, acc)
           else (case jpeg_size img new_width new_height 85 of
                   None \<Rightarrow> Some (Raised, acc @ [(new_width, new_height, 85)])
                 | Some n \<Rightarrow>
                     if fits n max_size_mb
                     then Some (Returned (Encoded DimensionLadder new_width new_height 85 n),
                                acc @ [(new_width, new_height, 85)])
                     else scale_loop img max_size_mb width height (fl (scale - fl (1 / 10)))
                            (acc @ [(new_width, new_height, 85)]))
      else Some (Continue, acc))"

definition last_resort ::
  "image \<Rightarrow> nat \<Rightarrow> nat \<Rightarrow> encode_step list \<Rightarrow> outcome \<times> encode_step list" where
  "last_resort img width height acc =
     (case jpeg_size img width height 70 of
        None \<Rightarrow> (Raised, acc @ [(width, height, 70)])
      | Some n \<Rightarrow> (Returned (Encoded LastResort width height 70 n), acc @ [(width, height, 70)]))"

definition compress ::
  "image \<Rightarrow> nat \<Rightarrow> nat \<Rightarrow> nat \<Rightarrow> (outcome \<times> encode_step list) option" where
  \<comment> \<open>lines 90 to 140\<close>
  "compress img max_size_mb width height =
     (case quality_loop img max_size_mb width height 90 [] of
        (Continue, acc) \<Rightarrow>
          (case scale_loop img max_size_mb width height (fl (8 / 10)) acc of
             None \<Rightarrow> None
           | Some (Continue, acc') \<Rightarrow> Some (last_resort img width height acc')
           | Some r \<Rightarrow> Some r)
      | r \<Rightarrow> Some r)"

definition working_size :: "image \<Rightarrow> nat \<Rightarrow> (nat \<times> nat) option" where
  \<comment> \<open>lines 60 to 88: the size of \<open>img\<close> when the compression starts; \<open>None\<close> when
      something raised on the way\<close>
  "working_size img max_dimension =
     (case decoded img of
        None \<Rightarrow> None
      | Some (width, height) \<Rightarrow>
          (case (if width > max_dimension \<or> height > max_dimension
                 then thumbnail (max_dimension, max_dimension) (width, height)
                 else Some (width, height)) of
             None \<Rightarrow> None
           | Some sz \<Rightarrow> upscale sz))"

definition resize_image_if_needed ::
  "image \<Rightarrow> nat \<Rightarrow> nat \<Rightarrow> (payload \<times> encode_step list) option" where
  "resize_image_if_needed img max_size_mb max_dimension =
     (case working_size img max_dimension of
        None \<Rightarrow> Some (Fallback, [])
      | Some (width, height) \<Rightarrow>
          (case compress img max_size_mb width height of
             None \<Rightarrow> None
           | Some (Returned p, acc) \<Rightarrow> Some (p, acc)
           | Some (_, acc) \<Rightarrow> Some (Fallback, acc)))"

section \<open>Exceptions, effects and the world outside\<close>

text \<open>
  Every exception of the source is a value. \<open>HTTPException\<close> carries the status code and
  the detail text of the \<open>ErrorResponse\<close> it is built from; \<open>RequestException\<close> is the
  transport failure of the HTTP library; \<open>PyException\<close> is any other \<open>Exception\<close>
  (\<open>KeyError\<close>, \<open>AttributeError\<close>, \<open>TypeError\<close>, an error of the persistence layer) with its
  text. \<open>exn_str\<close> is \<open>str(e)\<close>; how the web framework renders an \<open>HTTPException\<close> differs
  between its versions, the model takes the detail text.
\<close>

datatype exn =
    HTTPException nat string
  | RequestException string
  | PyException string

fun exn_str :: "exn \<Rightarrow> string" where
  "exn_str (HTTPException status_code detail) = detail"
| "exn_str (RequestException text) = text"
| "exn_str (PyException text) = text"

text \<open>
  The body of a provider reply is a JSON object. The model keeps the members the source
  reads, typed as the provider documents them; \<open>None\<close> is an absent member.
\<close>

datatype jval = JNull | JNum real | JStr string

datatype attr = AttrNull | AttrObject "(string \<times> jval) list"

type_synonym attributes = "(string \<times> attr) list"

record face =
  f_face_token :: "string option"
  f_attributes :: "attributes option"

record search_result =
  r_confidence :: "real option"
  r_face_token :: "string option"

record body =
  error_message :: "string option"
  faces :: "face list option"
  results :: "search_result list option"
  faceset_token :: "string option"
  face_added :: "nat option"
  face_count :: "nat option"

datatype http_outcome =
    Raises exn                  \<comment> \<open>\<open>requests.post\<close> raised\<close>
  | Response nat "body option"  \<comment> \<open>status code; the body, \<open>None\<close> when \<open>response.json()\<close>
                                    raises \<open>JSONDecodeError\<close>\<close>

text \<open>
  Modelled from the spec: the persistence layer (\<open>DBManager\<close>, module \<open>db_manager\<close>) is not
  among the sources. It is consumed through four calls, taken as parameters with the
  result types the specification gives the persistence collaborator; each call returns or
  raises.

  Everything else outside the two classes is a parameter too. \<open>http n\<close> is what the \<open>n\<close>-th
  \<open>requests.post\<close> of the run meets, so a \<open>world\<close> ranges over every behaviour of the
  provider; \<open>json_dumps\<close> and \<open>uuid_hex\<close> are the library calls \<open>json.dumps\<close> and
  \<open>uuid.uuid4().hex\<close>.
\<close>

record world =
  http :: "nat \<Rightarrow> http_outcome"
  json_dumps :: "body \<Rightarrow> string"
  uuid_hex :: string
  get_all_stored_faces :: "exn + (string \<times> string list) list"
  find_available_faceset :: "exn + (string \<times> nat) option"
  save_face_token :: "string \<Rightarrow> string \<Rightarrow> exn + bool"
  update_faceset_count :: "string \<Rightarrow> nat \<Rightarrow> exn + bool"

datatype event =
    RateGate                                             \<comment> \<open>\<open>_handle_rate_limit()\<close>\<close>
  | Post string string "(string \<times> string) list" "payload option"
                                     \<comment> \<open>\<open>requests.post\<close>: operation, url, data, image file\<close>
  | Sleep nat                                            \<comment> \<open>\<open>time.sleep\<close> of \<open>_make_request\<close>\<close>
  | DbGetAllStoredFaces
  | DbFindAvailableFaceset
  | DbSaveFaceToken string string
  | DbUpdateFacesetCount string nat

record state =
  posts :: nat          \<comment> \<open>number of \<open>requests.post\<close> calls made so far\<close>
  trace :: "event list" \<comment> \<open>the calls made so far, oldest first\<close>

text \<open>
  A computation takes the state and returns a value or an exception, with the new state;
  \<open>None\<close> is a computation that does not return.
\<close>

type_synonym 'a prog = "state \<Rightarrow> ((exn + 'a) \<times> state) option"

definition ret :: "'a \<Rightarrow> 'a prog" where
  "ret x = (\<lambda>s. Some (Inr x, s))"

definition raise :: "exn \<Rightarrow> 'a prog" where
  "raise e = (\<lambda>s. Some (Inl e, s))"

definition bind :: "'a prog \<Rightarrow> ('a \<Rightarrow> 'b prog) \<Rightarrow> 'b prog" where
  "bind m f = (\<lambda>s. case m s of
                      None \<Rightarrow> None
                    | Some (Inl e, s') \<Rightarrow> Some (Inl e, s')
                    | Some (Inr x, s') \<Rightarrow> f x s')"

definition try_except :: "'a prog \<Rightarrow> (exn \<Rightarrow> 'a prog) \<Rightarrow> 'a prog" where
  \<comment> \<open>\<open>try: m  except Exception as e: h e\<close>\<close>
  "try_except m h = (\<lambda>s. case m s of
                            None \<Rightarrow> None
                          | Some (Inl e, s') \<Rightarrow> h e s'
                          | Some (Inr x, s') \<Rightarrow> Some (Inr x, s'))"

definition emit :: "event \<Rightarrow> unit prog" where
  "emit ev = (\<lambda>s. Some (Inr (), s\<lparr>trace := trace s @ [ev]\<rparr>))"

definition lift :: "exn + 'a \<Rightarrow> 'a prog" where
  "lift r = (case r of Inl e \<Rightarrow> raise e | Inr x \<Rightarrow> ret x)"

definition reraise_http :: "string \<Rightarrow> exn \<Rightarrow> 'a prog" where
  \<comment> \<open>\<open>except HTTPException: raise\<close> followed by
      \<open>except Exception as e: raise HTTPException(500, f"{label}{str(e)}")\<close>\<close>
  "reraise_http label e =
     (case e of
        HTTPException status_code detail \<Rightarrow> raise e
      | _ \<Rightarrow> raise (HTTPException 500 (label @ exn_str e)))"

section \<open>The provider client: \<open>FacePlusPlusManager\<close>\<close>

record manager =
  api_key :: string
  api_secret :: string
  detect_url :: string
  search_url :: string
  create_url :: string
  add_url :: string
  get_detail_url :: string
  max_retries :: nat
  retry_delay :: nat

definition new_manager :: "string \<Rightarrow> string \<Rightarrow> string \<Rightarrow> string \<Rightarrow> string \<Rightarrow> string \<Rightarrow> string
    \<Rightarrow> manager" where
  \<comment> \<open>\<open>__init__\<close>: the credentials and the five URLs come from the configuration\<close>
  "new_manager key secret detect search create add detail =
     \<lparr>api_key = key, api_secret = secret, detect_url = detect, search_url = search,
      create_url = create, add_url = add, get_detail_url = detail,
      max_retries = 3, retry_delay = 2\<rparr>"

definition get_base_params :: "manager \<Rightarrow> (string \<times> string) list" where
  "get_base_params self = [(''api_key'', api_key self), (''api_secret'', api_secret self)]"

definition handle_rate_limit :: "unit prog" where
  \<comment> \<open>\<open>_handle_rate_limit\<close> sleeps until \<open>retry_delay\<close> seconds of wall-clock time have
      passed since the last request. The clock is not modelled: the call is recorded.\<close>
  "handle_rate_limit = emit RateGate"

definition requests_post ::
  "world \<Rightarrow> string \<Rightarrow> string \<Rightarrow> (string \<times> string) list \<Rightarrow> payload option
     \<Rightarrow> http_outcome prog" where
  "requests_post w operation url data files =
     (\<lambda>s. Some (Inr (http w (posts s)),
                 s\<lparr>posts := posts s + 1, trace := trace s @ [Post operation url data files]\<rparr>))"

fun in_str :: "string \<Rightarrow> string \<Rightarrow> bool" where
  \<comment> \<open>\<open>sub in text\<close> on two Python strings\<close>
  "in_str sub [] = (sub = [])"
| "in_str sub (c # cs) = (prefix sub (c # cs) \<or> in_str sub cs)"

definition rate_limit_error :: "body \<Rightarrow> bool" where
  \<comment> \<open>\<open>'error_message' in result and 'CONCURRENCY_LIMIT_EXCEEDED' in result['error_message']\<close>\<close>
  "rate_limit_error result =
     (case error_message result of
        None \<Rightarrow> False
      | Some text \<Rightarrow> in_str ''CONCURRENCY_LIMIT_EXCEEDED'' text)"

text \<open>
  \<open>request_loop\<close> is the \<open>for attempt in range(self.max_retries)\<close> loop of \<open>_make_request\<close>
  over the attempts still to run. A loop that runs out of attempts returns Python's \<open>None\<close>.
\<close>

fun request_loop ::
  "manager \<Rightarrow> world \<Rightarrow> string \<Rightarrow> (string \<times> string) list \<Rightarrow> payload option \<Rightarrow> string
     \<Rightarrow> nat list \<Rightarrow> body option prog" where
  "request_loop self w url data files operation [] = ret None"
| "request_loop self w url data files operation (attempt # rest) =
     bind handle_rate_limit (\<lambda>_.
     bind (requests_post w operation url data files) (\<lambda>outcome.
       case outcome of
         Raises e \<Rightarrow>
           (case e of
              RequestException text \<Rightarrow>
                if int attempt < int (max_retries self) - 1
                then bind (emit (Sleep (retry_delay self)))
                       (\<lambda>_. request_loop self w url data files operation rest)
                else raise (HTTPException 503
                              (''API request failed in '' @ operation @ '': '' @ text))
            | _ \<Rightarrow> raise e)
       | Response status_code None \<Rightarrow>
           if int attempt < int (max_retries self) - 1
           then bind (emit (Sleep (retry_delay self)))
                  (\<lambda>_. request_loop self w url data files operation rest)
           else raise (HTTPException 500 (''Invalid response from Face++ API in '' @ operation))
       | Response status_code (Some result) \<Rightarrow>
           if rate_limit_error result \<and> int attempt < int (max_retries self) - 1
           then bind (emit (Sleep (retry_delay self * (attempt + 1))))
                  (\<lambda>_. request_loop self w url data files operation rest)
           else if status_code \<noteq> 200
           then raise (HTTPException status_code
                         (operation @ '' failed: '' @ json_dumps w result))
           else (case error_message result of
                   Some text \<Rightarrow> raise (HTTPException 400 (operation @ '' failed: '' @ text))
                 | None \<Rightarrow> ret (Some result))))"

definition make_request ::
  "manager \<Rightarrow> world \<Rightarrow> string \<Rightarrow> (string \<times> string) list \<Rightarrow> payload option \<Rightarrow> string
     \<Rightarrow> body option prog" where
  \<comment> \<open>\<open>_make_request\<close>\<close>
  "make_request self w url data files operation =
     request_loop self w url data files operation [0 ..< max_retries self]"

definition create_new_faceset :: "manager \<Rightarrow> world \<Rightarrow> string prog" where
  "create_new_faceset self w =
     try_except
       (let new_outer_id = ''faceset_'' @ take 8 (uuid_hex w);
            data = get_base_params self @
                   [(''outer_id'', new_outer_id), (''display_name'', new_outer_id),
                    (''tags'', ''face_verification'')]
        in bind (make_request self w (create_url self) data None ''create_faceset'') (\<lambda>result.
             case result of
               Some r \<Rightarrow>
                 (case faceset_token r of
                    Some (c # cs) \<Rightarrow> ret new_outer_id
                  | _ \<Rightarrow> raise (HTTPException 500
                                  ''Failed to create FaceSet: Invalid response format''))
             | None \<Rightarrow> raise (HTTPException 500
                                ''Failed to create FaceSet: Invalid response format'')))
       (reraise_http ''Failed to create FaceSet: '')"

definition add_face_to_faceset :: "manager \<Rightarrow> world \<Rightarrow> string \<Rightarrow> string \<Rightarrow> bool prog" where
  "add_face_to_faceset self w face_token outer_id =
     try_except
       (let data = get_base_params self @
                   [(''face_tokens'', face_token), (''outer_id'', outer_id)]
        in bind (make_request self w (add_url self) data None ''add_face'') (\<lambda>result.
             case result of
               Some r \<Rightarrow>
                 (case face_added r of
                    Some n \<Rightarrow> ret True
                  | None \<Rightarrow> raise (HTTPException 500
                                     ''Failed to add face: Invalid response format''))
             | None \<Rightarrow> raise (HTTPException 500
                                ''Failed to add face: Invalid response format'')))
       (reraise_http ''Failed to add face to FaceSet: '')"

definition search_faces ::
  "manager \<Rightarrow> world \<Rightarrow> string \<Rightarrow> string \<Rightarrow> search_result list prog" where
  \<comment> \<open>\<open>return_count\<close> has its default, 5\<close>
  "search_faces self w face_token outer_id =
     try_except
       (let data = get_base_params self @
                   [(''face_token'', face_token), (''outer_id'', outer_id),
                    (''return_result_count'', ''5'')]
        in bind (make_request self w (search_url self) data None ''search_faces'') (\<lambda>result.
             case result of
               Some r \<Rightarrow>
                 (case results r of
                    Some rs \<Rightarrow> ret rs
                  | None \<Rightarrow> raise (HTTPException 500
                                     ''Face search failed: Invalid response format''))
             | None \<Rightarrow> raise (HTTPException 500
                                ''Face search failed: Invalid response format'')))
       (reraise_http ''Face search failed: '')"

definition get_faceset_detail :: "manager \<Rightarrow> world \<Rightarrow> string \<Rightarrow> body prog" where
  "get_faceset_detail self w outer_id =
     try_except
       (let data = get_base_params self @ [(''outer_id'', outer_id)]
        in bind (make_request self w (get_detail_url self) data None ''get_faceset_detail'')
             (\<lambda>result.
                case result of
                  Some r \<Rightarrow>
                    (case face_count r of
                       Some n \<Rightarrow> ret r
                     | None \<Rightarrow> raise (HTTPException 500
                                        ''Failed to get FaceSet details: Invalid response format''))
                | None \<Rightarrow> raise (HTTPException 500
                                   ''Failed to get FaceSet details: Invalid response format'')))
       (reraise_http ''Failed to get FaceSet details: '')"

definition face_quality_of :: "attributes \<Rightarrow> exn + jval" where
  \<comment> \<open>\<open>attributes.get('facequality', {}).get('value', 0)\<close>\<close>
  "face_quality_of attributes =
     (case map_of attributes ''facequality'' of
        None \<Rightarrow> Inr (JNum 0)
      | Some AttrNull \<Rightarrow> Inl (PyException ''AttributeError'')
      | Some (AttrObject members) \<Rightarrow>
          (case map_of members ''value'' of None \<Rightarrow> Inr (JNum 0) | Some v \<Rightarrow> Inr v))"

definition normalize :: "image \<Rightarrow> payload prog" where
  \<comment> \<open>the call \<open>self.resize_image_if_needed(image_data)\<close> with its default arguments\<close>
  "normalize img =
     (\<lambda>s. case resize_image_if_needed img 2 2048 of
             None \<Rightarrow> None
           | Some (p, steps) \<Rightarrow> Some (Inr p, s))"

definition detect_face ::
  "manager \<Rightarrow> world \<Rightarrow> image \<Rightarrow> (string option \<times> attributes option) prog" where
  "detect_face self w image_data =
     try_except
       (bind (normalize image_data) (\<lambda>processed_image.
        let data = get_base_params self @
                   [(''return_attributes'', ''gender,age,ethnicity,facequality'')]
        in bind (make_request self w (detect_url self) data (Some processed_image)
                   ''detect_face'') (\<lambda>result.
             case result of
               None \<Rightarrow> raise (PyException ''AttributeError'')
             | Some r \<Rightarrow>
                 (case faces r of
                    None \<Rightarrow> ret (None, None)
                  | Some [] \<Rightarrow> ret (None, None)
                  | Some (face # others) \<Rightarrow>
                      (case f_face_token face of
                         None \<Rightarrow> raise (PyException ''KeyError'')
                       | Some face_token \<Rightarrow>
                           let attributes = (case f_attributes face of
                                               None \<Rightarrow> [] | Some a \<Rightarrow> a)
                           in bind (lift (face_quality_of attributes)) (\<lambda>face_quality.
                                ret (Some face_token, Some attributes)))))))
       (\<lambda>e. ret (None, None))"

section \<open>The verification flow: \<open>FaceVerification\<close>\<close>

text \<open>
  Modelled from the spec: \<open>FaceVerificationMatch\<close>, \<open>VerificationResponse\<close> and
  \<open>ErrorResponse\<close> are declared in the schema module \<open>face_verification_schema\<close>, which is
  not among the sources. The records have the fields that the constructor calls of the
  source give them (the specification's Match and VerificationOutcome); an \<open>ErrorResponse\<close>
  is the status code and detail text that its \<open>HTTPException\<close> carries.
\<close>

record match =
  m_confidence :: real
  m_face_token :: string

record verification_response =
  v_status :: string
  v_message :: string
  v_is_duplicate :: bool
  v_face_token :: "string option"
  v_confidence :: "real option"
  v_matches :: "match list option"

record verifier =
  confidence_threshold :: real
  min_face_quality :: real
  fpp_manager :: manager

definition new_verifier :: "manager \<Rightarrow> verifier" where
  "new_verifier m = \<lparr>confidence_threshold = 90, min_face_quality = 40, fpp_manager = m\<rparr>"

definition is_not_none :: "attributes \<Rightarrow> string \<Rightarrow> bool" where
  \<comment> \<open>\<open>attributes.get(key) is not None\<close>\<close>
  "is_not_none attributes key =
     (case map_of attributes key of None \<Rightarrow> False | Some AttrNull \<Rightarrow> False | Some v \<Rightarrow> True)"

definition greater_than :: "jval \<Rightarrow> real \<Rightarrow> exn + bool" where
  \<comment> \<open>\<open>value > number\<close>; comparing \<open>None\<close> or a string with a number raises\<close>
  "greater_than v x = (case v of JNum r \<Rightarrow> Inr (r > x) | _ \<Rightarrow> Inl (PyException ''TypeError''))"

definition low_quality_warning :: "verifier \<Rightarrow> jval \<Rightarrow> bool" where
  \<comment> \<open>\<open>face_quality > 0 and face_quality < self.min_face_quality\<close>, for a number\<close>
  "low_quality_warning self v =
     (case v of JNum r \<Rightarrow> r > 0 \<and> r < min_face_quality self | _ \<Rightarrow> False)"

definition validate_face_attributes :: "verifier \<Rightarrow> attributes \<Rightarrow> exn + (bool \<times> string)" where
  \<comment> \<open>\<open>_validate_face_attributes\<close>; the two quality tests only decide what is logged\<close>
  "validate_face_attributes self attributes =
     (if attributes = [] then Inr (False, ''No face attributes detected'')
      else
        case face_quality_of attributes of
          Inl e \<Rightarrow> Inl e
        | Inr face_quality \<Rightarrow>
            (case greater_than face_quality 0 of
               Inl e \<Rightarrow> Inl e
             | Inr logged \<Rightarrow>
                 let has_gender = is_not_none attributes ''gender'';
                     has_age = is_not_none attributes ''age'';
                     has_ethnicity = is_not_none attributes ''ethnicity''
                 in if \<not> (has_gender \<or> has_age \<or> has_ethnicity)
                    then Inr (False, ''Unable to detect human face characteristics'')
                    else let warned = low_quality_warning self face_quality
                         in Inr (True, ''Valid human face detected'')))"

fun collect_matches :: "verifier \<Rightarrow> search_result list \<Rightarrow> match list \<Rightarrow> match list" where
  \<comment> \<open>\<open>for result in results: ... matches.append(...)\<close>\<close>
  "collect_matches self [] matches = matches"
| "collect_matches self (result # rest) matches =
     (let confidence = (case r_confidence result of None \<Rightarrow> 0 | Some c \<Rightarrow> c)
      in if confidence \<ge> confidence_threshold self
         then collect_matches self rest
                (matches @ [\<lparr>m_confidence = confidence,
                              m_face_token = (case r_face_token result of
                                                None \<Rightarrow> [] | Some t \<Rightarrow> t)\<rparr>])
         else collect_matches self rest matches)"

fun search_loop ::
  "verifier \<Rightarrow> world \<Rightarrow> string \<Rightarrow> (string \<times> string list) list \<Rightarrow> match list
     \<Rightarrow> match list prog" where
  \<comment> \<open>\<open>for faceset_id, stored_tokens in facesets.items()\<close>\<close>
  "search_loop self w face_token [] matches = ret matches"
| "search_loop self w face_token ((faceset_id, stored_tokens) # rest) matches =
     (if stored_tokens = [] then search_loop self w face_token rest matches
      else bind (try_except
                   (bind (search_faces (fpp_manager self) w face_token faceset_id)
                      (\<lambda>rs. ret (collect_matches self rs matches)))
                   (\<lambda>e. ret matches))
             (\<lambda>matches'. search_loop self w face_token rest matches'))"

definition sorted_reverse :: "('a \<Rightarrow> real) \<Rightarrow> 'a list \<Rightarrow> 'a list" where
  \<comment> \<open>\<open>sorted(xs, key=key, reverse=True)\<close>: the list is reversed, sorted by a stable
      ascending sort and reversed again\<close>
  "sorted_reverse key xs = rev (sort_key key (rev xs))"

definition search_similar_faces :: "verifier \<Rightarrow> world \<Rightarrow> string \<Rightarrow> match list prog" where
  "search_similar_faces self w face_token =
     try_except
       (bind (emit DbGetAllStoredFaces) (\<lambda>_.
        bind (lift (get_all_stored_faces w)) (\<lambda>facesets.
        bind (search_loop self w face_token facesets []) (\<lambda>matches.
        ret (sorted_reverse m_confidence matches)))))
       (\<lambda>e. raise (HTTPException 500 (''Error during face search: '' @ exn_str e)))"

definition is_empty_body :: "body \<Rightarrow> bool" where
  \<comment> \<open>\<open>not details\<close>: the reply has no member\<close>
  "is_empty_body b \<longleftrightarrow>
     error_message b = None \<and> faces b = None \<and> results b = None \<and> faceset_token b = None \<and>
     face_added b = None \<and> face_count b = None"

definition save_face_data :: "verifier \<Rightarrow> world \<Rightarrow> string \<Rightarrow> bool prog" where
  "save_face_data self w face_token =
     try_except
       (bind (emit DbFindAvailableFaceset) (\<lambda>_.
        bind (lift (find_available_faceset w)) (\<lambda>faceset_info.
        bind (case faceset_info of
                None \<Rightarrow> ret None
              | Some (faceset_id, count) \<Rightarrow>
                  bind (get_faceset_detail (fpp_manager self) w faceset_id) (\<lambda>details.
                    if is_empty_body details \<or> error_message details \<noteq> None
                    then ret None
                    else ret (Some faceset_id))) (\<lambda>candidate.
        bind (case candidate of
                Some (c # cs) \<Rightarrow> ret (c # cs)
              | _ \<Rightarrow>
                  bind (create_new_faceset (fpp_manager self) w) (\<lambda>created.
                    if created = []
                    then raise (HTTPException 500 ''Failed to create new FaceSet in Face++ API'')
                    else ret created)) (\<lambda>faceset_id.
        bind (add_face_to_faceset (fpp_manager self) w face_token faceset_id) (\<lambda>added.
        if \<not> added
        then raise (HTTPException 500
                      (''Failed to add face to FaceSet '' @ faceset_id @ '' in Face++ API''))
        else
        bind (emit (DbSaveFaceToken face_token faceset_id)) (\<lambda>_.
        bind (lift (save_face_token w face_token faceset_id)) (\<lambda>saved.
        if \<not> saved
        then raise (HTTPException 500 ''Failed to save face token to database'')
        else
        bind (get_faceset_detail (fpp_manager self) w faceset_id) (\<lambda>details.
        bind (case face_count details of
                Some n \<Rightarrow>
                  bind (emit (DbUpdateFacesetCount faceset_id n)) (\<lambda>_.
                  bind (lift (update_faceset_count w faceset_id n)) (\<lambda>_. ret ()))
              | None \<Rightarrow> ret ()) (\<lambda>_.
        ret True))))))))))
       (\<lambda>e. raise (HTTPException 500 (''Error saving face data: '' @ exn_str e)))"

definition error_response :: "string \<Rightarrow> verification_response" where
  "error_response message =
     \<lparr>v_status = ''error'', v_message = message, v_is_duplicate = False, v_face_token = None,
      v_confidence = None, v_matches = None\<rparr>"

definition verify_face :: "verifier \<Rightarrow> world \<Rightarrow> image \<Rightarrow> verification_response prog" where
  "verify_face self w image_data =
     try_except
       (bind (detect_face (fpp_manager self) w image_data) (\<lambda>(face_token, attributes).
        case face_token of
          None \<Rightarrow> ret (error_response ''No face detected in image'')
        | Some [] \<Rightarrow> ret (error_response ''No face detected in image'')
        | Some (c # cs) \<Rightarrow>
            bind (lift (validate_face_attributes self
                          (case attributes of None \<Rightarrow> [] | Some a \<Rightarrow> a)))
              (\<lambda>(is_valid, message).
            if \<not> is_valid then ret (error_response message)
            else
            bind (search_similar_faces self w (c # cs)) (\<lambda>matches.
            case matches of
              best_match # others \<Rightarrow>
                ret \<lparr>v_status = ''duplicate_found'',
                     v_message = ''Potential duplicate face detected'',
                     v_is_duplicate = True, v_face_token = Some (c # cs),
                     v_confidence = Some (m_confidence best_match),
                     v_matches = Some matches\<rparr>
            | [] \<Rightarrow>
                bind (save_face_data self w (c # cs)) (\<lambda>saved.
                if \<not> saved then ret (error_response ''Failed to save face data'')
                else ret \<lparr>v_status = ''success'',
                          v_message = ''New face registered successfully'',
                          v_is_duplicate = False, v_face_token = Some (c # cs),
                          v_confidence = None, v_matches = None\<rparr>)))))
       (\<lambda>e. ret (error_response (exn_str e)))"

section \<open>Predicates used in the properties\<close>

text \<open>
  \<open>encoder_total\<close>: every JPEG encoding the normalizer may ask for succeeds.
  \<open>decodable\<close>: the imaging library opens the image and gives a picture of positive size;
  nothing is said about the encodings.
\<close>

definition encoder_total :: "image \<Rightarrow> bool" where
  "encoder_total img \<longleftrightarrow> (\<forall>w h q. jpeg_size img w h q \<noteq> None)"

definition ladder_ok ::
  "image \<Rightarrow> nat \<Rightarrow> stage \<Rightarrow> nat \<Rightarrow> encode_step list \<Rightarrow> outcome \<times> encode_step list \<Rightarrow> bool" where
  "ladder_ok img max_size_mb st n acc r \<longleftrightarrow>
     (\<exists>steps. snd r = acc @ steps \<and> length steps \<le> n \<and>
        (case fst r of
           Continue \<Rightarrow> True
         | Raised \<Rightarrow> \<not> encoder_total img
         | Returned p \<Rightarrow> (\<exists>w h q k. p = Encoded st w h q k \<and> fits k max_size_mb)))"


definition decodable :: "image \<Rightarrow> bool" where
  "decodable img \<longleftrightarrow>
     (\<exists>w h. decoded img = Some (w, h) \<and> 0 < w \<and> 0 < h)"


definition compress_ok ::
  "image \<Rightarrow> nat \<Rightarrow> nat \<Rightarrow> nat \<Rightarrow> outcome \<times> encode_step list \<Rightarrow> bool" where
  "compress_ok img m w h r \<longleftrightarrow>
     length (snd r) \<le> 21 \<and>
     (case fst r of
        Continue \<Rightarrow> False
      | Raised \<Rightarrow> \<not> encoder_total img
      | Returned p \<Rightarrow>
          (\<exists>st w' h' q k. p = Encoded st w' h' q k \<and>
             (fits k m \<or> st = LastResort \<and> w' = w \<and> h' = h \<and> q = 70 \<and> snd r \<noteq> [] \<and>
                last (snd r) = (w, h, 70))))"

text \<open>A computation terminates when it returns, with a value or an exception, from every state.\<close>

definition terminates :: "'a prog \<Rightarrow> bool" where
  "terminates m \<longleftrightarrow> (\<forall>s. m s \<noteq> None)"

text \<open>
  The duplicate search in the words of its description. \<open>above_threshold\<close> are the results
  of one gallery whose confidence reaches the threshold, as matches. \<open>search_outcomes\<close> lists,
  for the galleries with stored tokens in their order, what the provider search of each
  gallery gave: its results or the exception it raised. \<open>gathered\<close> are the matches above
  the threshold of the galleries whose search succeeded; a gallery whose search failed
  gives none.
\<close>

definition to_match :: "search_result \<Rightarrow> match" where
  "to_match result =
     \<lparr>m_confidence = (case r_confidence result of None \<Rightarrow> 0 | Some c \<Rightarrow> c),
      m_face_token = (case r_face_token result of None \<Rightarrow> [] | Some t \<Rightarrow> t)\<rparr>"

definition above_threshold :: "verifier \<Rightarrow> search_result list \<Rightarrow> match list" where
  "above_threshold self rs =
     filter (\<lambda>m. confidence_threshold self \<le> m_confidence m) (map to_match rs)"

fun search_outcomes ::
  "verifier \<Rightarrow> world \<Rightarrow> string \<Rightarrow> (string \<times> string list) list \<Rightarrow> state
     \<Rightarrow> (string \<times> (exn + search_result list)) list" where
  "search_outcomes self w face_token [] s = []"
| "search_outcomes self w face_token ((faceset_id, stored_tokens) # rest) s =
     (if stored_tokens = [] then search_outcomes self w face_token rest s
      else case search_faces (fpp_manager self) w face_token faceset_id s of
             None \<Rightarrow> []
           | Some (r, s1) \<Rightarrow> (faceset_id, r) # search_outcomes self w face_token rest s1)"

definition gathered ::
  "verifier \<Rightarrow> (string \<times> (exn + search_result list)) list \<Rightarrow> match list" where
  "gathered self outcomes =
     concat (map (\<lambda>(faceset_id, r). case r of Inl e \<Rightarrow> [] | Inr rs \<Rightarrow> above_threshold self rs)
               outcomes)"

text \<open>
  The calls that belong to the detection: the rate gate, a back-off sleep and a request of
  the operation \<open>detect_face\<close>. A search or a registration shows in the trace as a request
  of another operation or as a call of the persistence layer.
\<close>

definition detect_event :: "event \<Rightarrow> bool" where
  "detect_event ev =
     (case ev of
        RateGate \<Rightarrow> True
      | Sleep n \<Rightarrow> True
      | Post operation url data files \<Rightarrow> operation = ''detect_face''
      | _ \<Rightarrow> False)"

definition quality_is_number :: "attributes \<Rightarrow> bool" where
  \<comment> \<open>the face-quality value, 0 when the provider sent none, is a number\<close>
  "quality_is_number attributes \<longleftrightarrow> (\<exists>q. face_quality_of attributes = Inr (JNum q))"

definition only_emits :: "(event \<Rightarrow> bool) \<Rightarrow> 'a prog \<Rightarrow> bool" where
  \<comment> \<open>whenever the computation returns, it has added to the trace only events with \<open>P\<close>\<close>
  "only_emits P m \<longleftrightarrow>
     (\<forall>s r s'. m s = Some (r, s') \<longrightarrow> (\<exists>evs. trace s' = trace s @ evs \<and> list_all P evs))"

text \<open>
  The retry policy in the words of its description. A reply is retried when it reports the
  concurrency limit, when its body does not parse, or when the transport failed. The wait
  after a retried reply is \<open>retry_delay\<close> times the number of the attempt for a parsed
  reply (the rate-limit report) and \<open>retry_delay\<close> otherwise. \<open>retried_events\<close> is the trace
  of \<open>k\<close> retried attempts of a request that starts as the \<open>n\<close>-th of the run.
\<close>

definition retried :: "http_outcome \<Rightarrow> bool" where
  "retried reply =
     (case reply of
        Response status_code (Some b) \<Rightarrow> rate_limit_error b
      | Response status_code None \<Rightarrow> True
      | Raises (RequestException text) \<Rightarrow> True
      | Raises e \<Rightarrow> False)"

definition backoff :: "manager \<Rightarrow> nat \<Rightarrow> http_outcome \<Rightarrow> nat" where
  "backoff self attempt_number reply =
     (case reply of
        Response status_code (Some b) \<Rightarrow> retry_delay self * attempt_number
      | _ \<Rightarrow> retry_delay self)"

definition retried_events ::
  "manager \<Rightarrow> world \<Rightarrow> string \<Rightarrow> string \<Rightarrow> (string \<times> string) list \<Rightarrow> payload option
     \<Rightarrow> nat \<Rightarrow> nat \<Rightarrow> event list" where
  "retried_events self w operation url data files n k =
     concat (map (\<lambda>i. [RateGate, Post operation url data files,
                        Sleep (backoff self (i + 1) (http w (n + i)))]) [0 ..< k])"

text \<open>
  The failure surfaced for a reply carries the provider's status code: it is an
  \<open>HTTPException\<close> whose status code is the status code of the reply.
\<close>

definition carries_provider_status :: "http_outcome \<Rightarrow> exn + body option \<Rightarrow> bool" where
  "carries_provider_status reply r =
     (case reply of
        Response status_code b \<Rightarrow>
          (case r of
             Inl (HTTPException code detail) \<Rightarrow> code = status_code
           | _ \<Rightarrow> False)
      | Raises e \<Rightarrow> False)"

section \<open>Concrete inputs\<close>

text \<open>
  A 10000 by 100 panorama and a 640 by 480 photograph; each encodes to a JPEG of the given
  length at every size and quality.
\<close>

definition wide_image :: image where
  "wide_image = \<lparr>raw_size = 300000, decoded = Some (10000, 100), jpeg_size = (\<lambda>w h q. Some 1000)\<rparr>"

definition small_image :: image where
  "small_image = \<lparr>raw_size = 300000, decoded = Some (640, 480), jpeg_size = (\<lambda>w h q. Some 50000)\<rparr>"

text \<open>
  A 2000 by 2000 greyscale scan of sixteen bits per pixel, 8 MiB long: the library opens it
  (mode \<open>I;16\<close>, which line 63 does not convert) and its JPEG writer refuses the mode, so
  every \<open>save\<close> raises. And a 2000 by 1500 picture each of whose encodings is 3000000 bytes
  long, more than the budget of 2 MB.
\<close>

definition odd_mode_image :: image where
  "odd_mode_image =
     \<lparr>raw_size = 8388608, decoded = Some (2000, 2000), jpeg_size = (\<lambda>w h q. None)\<rparr>"

definition noise_image :: image where
  "noise_image =
     \<lparr>raw_size = 5000000, decoded = Some (2000, 1500), jpeg_size = (\<lambda>w h q. Some 3000000)\<rparr>"

text \<open>
  A manager and a verifier with the default settings, the state before the first call, and
  a world whose provider answers every request with an empty JSON object and whose
  persistence layer holds no gallery. \<open>rejecting_world\<close> is that world with a provider
  that rejects the credentials.
\<close>

definition example_manager :: manager where
  "example_manager =
     new_manager ''key'' ''secret'' ''/detect'' ''/search'' ''/create'' ''/add'' ''/getdetail''"

definition example_verifier :: verifier where
  "example_verifier = new_verifier example_manager"

definition empty_body :: body where
  "empty_body = \<lparr>error_message = None, faces = None, results = None, faceset_token = None,
                  face_added = None, face_count = None\<rparr>"

definition error_body :: "string \<Rightarrow> body" where
  "error_body text = empty_body\<lparr>error_message := Some text\<rparr>"

definition initial_state :: state where
  "initial_state = \<lparr>posts = 0, trace = []\<rparr>"

definition quiet_world :: world where
  "quiet_world =
     \<lparr>http = (\<lambda>n. Response 200 (Some empty_body)),
      json_dumps = (\<lambda>b. case error_message b of None \<Rightarrow> ''{}'' | Some text \<Rightarrow> text),
      uuid_hex = ''0123456789abcdef0123456789abcdef'',
      get_all_stored_faces = Inr [],
      find_available_faceset = Inr None,
      save_face_token = (\<lambda>face_token faceset_id. Inr True),
      update_faceset_count = (\<lambda>faceset_id count. Inr True)\<rparr>"

definition rejecting_world :: world where
  "rejecting_world =
     quiet_world\<lparr>http := (\<lambda>n. Response 401 (Some (error_body ''AUTHENTICATION_ERROR'')))\<rparr>"

definition detect_data :: "(string \<times> string) list" where
  "detect_data = [(''api_key'', ''key''), (''api_secret'', ''secret''),
                  (''return_attributes'', ''gender,age,ethnicity,facequality'')]"

text \<open>
  A world whose persistence layer offers the gallery \<open>faceset_old\<close> while the provider
  answers the first request, the gallery-detail request for it, with \<open>INVALID_OUTER_ID\<close>;
  every later request succeeds.
\<close>

definition success_body :: body where
  "success_body = empty_body\<lparr>faceset_token := Some ''token'', face_added := Some 1,
                              face_count := Some 1\<rparr>"

definition stale_world :: world where
  "stale_world =
     quiet_world\<lparr>http := (\<lambda>n. if n = 0 then Response 400 (Some (error_body ''INVALID_OUTER_ID''))
                                else Response 200 (Some success_body)),
                  find_available_faceset := Inr (Some (''faceset_old'', 5))\<rparr>"

definition detail_data :: "(string \<times> string) list" where
  "detail_data = [(''api_key'', ''key''), (''api_secret'', ''secret''),
                  (''outer_id'', ''faceset_old'')]"

text \<open>
  A world with three galleries: \<open>g1\<close> holds no token, the search of \<open>g2\<close> (the first
  request) fails with a provider error, the search of \<open>g3\<close> returns three results.
\<close>

definition galleries :: "(string \<times> string list) list" where
  "galleries = [(''g1'', []), (''g2'', [''t1'']), (''g3'', [''t2'', ''t3''])]"

definition found_results :: "search_result list" where
  "found_results =
     [\<lparr>r_confidence = Some 95, r_face_token = Some ''tokA''\<rparr>,
      \<lparr>r_confidence = Some 80, r_face_token = Some ''tokB''\<rparr>,
      \<lparr>r_confidence = Some 97, r_face_token = Some ''tokC''\<rparr>]"

definition gallery_world :: world where
  "gallery_world =
     quiet_world\<lparr>http := (\<lambda>n. if n = 0 then Response 500 (Some (error_body ''INTERNAL_ERROR''))
                                else Response 200 (Some (empty_body\<lparr>results := Some found_results\<rparr>))),
                  get_all_stored_faces := Inr galleries\<rparr>"

definition search_data :: "string \<Rightarrow> (string \<times> string) list" where
  "search_data outer_id =
     [(''api_key'', ''key''), (''api_secret'', ''secret''), (''face_token'', ''probe''),
      (''outer_id'', outer_id), (''return_result_count'', ''5'')]"

definition searched_state :: state where
  "searched_state =
     \<lparr>posts = 2,
      trace = [DbGetAllStoredFaces,
               RateGate, Post ''search_faces'' ''/search'' (search_data ''g2'') None,
               RateGate, Post ''search_faces'' ''/search'' (search_data ''g3'') None]\<rparr>"

text \<open>
  A world whose provider detects a face with a quality score of 30 and none of gender, age
  and ethnicity; and the attributes of a face of the same quality with a gender.
\<close>

definition quality_only :: attributes where
  "quality_only = [(''facequality'', AttrObject [(''value'', JNum 30)])]"

definition blurry_world :: world where
  "blurry_world =
     quiet_world\<lparr>http := (\<lambda>n. Response 200
        (Some (empty_body\<lparr>faces := Some [\<lparr>f_face_token = Some ''tokA'',
                                              f_attributes = Some quality_only\<rparr>]\<rparr>)))\<rparr>"

definition gender_and_quality :: attributes where
  "gender_and_quality =
     [(''gender'', AttrObject [(''value'', JStr ''Male'')]),
      (''facequality'', AttrObject [(''value'', JNum 30)])]"

definition detected_state :: state where
  "detected_state =
     \<lparr>posts = 1,
      trace = [RateGate,
               Post ''detect_face'' ''/detect'' detect_data
                 (Some (Encoded QualityLadder 640 480 90 50000))]\<rparr>"

text \<open>
  A provider that reports the concurrency limit on the first request and answers the
  second; and a provider that answers every request with HTTP status 200 and an
  \<open>error_message\<close> about the credentials.
\<close>

definition busy_world :: world where
  "busy_world =
     quiet_world\<lparr>http := (\<lambda>n. if n = 0
                                then Response 403 (Some (error_body ''CONCURRENCY_LIMIT_EXCEEDED''))
                                else Response 200
                                       (Some (empty_body\<lparr>results := Some found_results\<rparr>)))\<rparr>"

definition invalid_key_world :: world where
  "invalid_key_world =
     quiet_world\<lparr>http := (\<lambda>n. Response 200 (Some (error_body ''INVALID_API_KEY'')))\<rparr>"

section \<open>The compression ladder\<close>

lemma ladder_ok_Continue: "ladder_ok img m st n acc (Continue, acc)"
  by (simp add: ladder_ok_def)

lemma ladder_ok_Raised:
  "jpeg_size img w h q = None \<Longrightarrow> ladder_ok img m st (Suc n) acc (Raised, acc @ [x])"
  by (auto simp: ladder_ok_def encoder_total_def)

lemma ladder_ok_Returned:
  "fits k m \<Longrightarrow> ladder_ok img m st (Suc n) acc (Returned (Encoded st w h q k), acc @ [x])"
  by (simp add: ladder_ok_def)

lemma ladder_ok_step:
  "ladder_ok img m st n (acc @ [x]) r \<Longrightarrow> ladder_ok img m st (Suc n) acc r"
  unfolding ladder_ok_def
  by (elim exE conjE, rule_tac x = "x # steps" in exI) simp

lemma ladder_ok_mono: "ladder_ok img m st n acc r \<Longrightarrow> n \<le> n' \<Longrightarrow> ladder_ok img m st n' acc r"
  unfolding ladder_ok_def by fastforce

lemma ladder_count: "q > 20 \<Longrightarrow> (q - 16) div 5 = Suc ((q - 5 - 16) div 5)" for q :: nat
proof -
  assume "q > 20"
  then have "21 \<le> q" by simp
  then obtain k where k: "q = 21 + k" using le_Suc_ex by blast
  show ?thesis unfolding k by simp
qed

lemma quality_loop_ok:
  "ladder_ok img m QualityLadder ((q - 16) div 5) acc (quality_loop img m w h q acc)"
proof (induction img m w h q acc rule: quality_loop.induct)
  case (1 img m w h q acc)
  show ?case
  proof (cases "q > 20")
    case False
    then have "quality_loop img m w h q acc = (Continue, acc)"
      by (subst quality_loop.simps) simp
    then show ?thesis
      by (simp add: ladder_ok_Continue)
  next
    case True
    then have n: "(q - 16) div 5 = Suc ((q - 5 - 16) div 5)"
      by (rule ladder_count)
    show ?thesis
    proof (cases "jpeg_size img w h q")
      case None
      with True have "quality_loop img m w h q acc = (Raised, acc @ [(w, h, q)])"
        by (subst quality_loop.simps) simp
      then show ?thesis
        unfolding n by (simp add: ladder_ok_Raised [OF None])
    next
      case (Some k)
      show ?thesis
      proof (cases "fits k m")
        case fit: True
        with True Some have "quality_loop img m w h q acc =
            (Returned (Encoded QualityLadder w h q k), acc @ [(w, h, q)])"
          by (subst quality_loop.simps) simp
        then show ?thesis
          unfolding n by (simp add: ladder_ok_Returned [OF fit])
      next
        case nofit: False
        with True Some have "quality_loop img m w h q acc =
            quality_loop img m w h (q - 5) (acc @ [(w, h, q)])"
          by (subst quality_loop.simps) simp
        moreover from "1.IH" [OF True Some nofit]
        have "ladder_ok img m QualityLadder (Suc ((q - 5 - 16) div 5)) acc
                (quality_loop img m w h (q - 5) (acc @ [(w, h, q)]))"
          by (rule ladder_ok_step)
        ultimately show ?thesis
          unfolding n by simp
      qed
    qed
  qed
qed

lemma scale_loop_base:
  "\<not> s > fl (3 / 10) \<Longrightarrow> scale_loop img m w h s acc = Some (Continue, acc)"
  by (subst scale_loop.simps) simp

lemma scale_loop_break:
  assumes "s > fl (3 / 10)"
    and "min (nat \<lfloor>fl (of_nat w * s)\<rfloor>) (nat \<lfloor>fl (of_nat h * s)\<rfloor>) < min_dimension"
  shows "scale_loop img m w h s acc = Some (Continue, acc)"
  using assms by (subst scale_loop.simps) (simp add: Let_def)

lemma scale_loop_raise:
  assumes "s > fl (3 / 10)"
    and "\<not> min (nat \<lfloor>fl (of_nat w * s)\<rfloor>) (nat \<lfloor>fl (of_nat h * s)\<rfloor>) < min_dimension"
    and "jpeg_size img (nat \<lfloor>fl (of_nat w * s)\<rfloor>) (nat \<lfloor>fl (of_nat h * s)\<rfloor>) 85 = None"
  shows "scale_loop img m w h s acc =
           Some (Raised, acc @ [(nat \<lfloor>fl (of_nat w * s)\<rfloor>, nat \<lfloor>fl (of_nat h * s)\<rfloor>, 85)])"
  using assms by (subst scale_loop.simps) (simp add: Let_def)

lemma scale_loop_return:
  assumes "s > fl (3 / 10)"
    and "\<not> min (nat \<lfloor>fl (of_nat w * s)\<rfloor>) (nat \<lfloor>fl (of_nat h * s)\<rfloor>) < min_dimension"
    and "jpeg_size img (nat \<lfloor>fl (of_nat w * s)\<rfloor>) (nat \<lfloor>fl (of_nat h * s)\<rfloor>) 85 = Some k"
    and "fits k m"
  shows "scale_loop img m w h s acc =
           Some (Returned (Encoded DimensionLadder (nat \<lfloor>fl (of_nat w * s)\<rfloor>)
                             (nat \<lfloor>fl (of_nat h * s)\<rfloor>) 85 k),
                 acc @ [(nat \<lfloor>fl (of_nat w * s)\<rfloor>, nat \<lfloor>fl (of_nat h * s)\<rfloor>, 85)])"
  using assms by (subst scale_loop.simps) (simp add: Let_def)

lemma scale_loop_next:
  assumes "s > fl (3 / 10)"
    and "\<not> min (nat \<lfloor>fl (of_nat w * s)\<rfloor>) (nat \<lfloor>fl (of_nat h * s)\<rfloor>) < min_dimension"
    and "jpeg_size img (nat \<lfloor>fl (of_nat w * s)\<rfloor>) (nat \<lfloor>fl (of_nat h * s)\<rfloor>) 85 = Some k"
    and "\<not> fits k m"
  shows "scale_loop img m w h s acc =
           scale_loop img m w h (fl (s - fl (1 / 10)))
             (acc @ [(nat \<lfloor>fl (of_nat w * s)\<rfloor>, nat \<lfloor>fl (of_nat h * s)\<rfloor>, 85)])"
  using assms by (subst scale_loop.simps) (simp add: Let_def)

lemma scale_loop_step:
  assumes "\<And>acc. \<exists>r. scale_loop img m w h (fl (s - fl (1 / 10))) acc = Some r \<and>
                      ladder_ok img m DimensionLadder n acc r"
  shows "\<exists>r. scale_loop img m w h s acc = Some r \<and> ladder_ok img m DimensionLadder (Suc n) acc r"
proof (cases "s > fl (3 / 10)")
  case False
  then show ?thesis
    by (simp add: scale_loop_base ladder_ok_Continue)
next
  case True
  let ?nw = "nat \<lfloor>fl (of_nat w * s)\<rfloor>" and ?nh = "nat \<lfloor>fl (of_nat h * s)\<rfloor>"
  show ?thesis
  proof (cases "min ?nw ?nh < min_dimension")
    case small: True
    show ?thesis
      by (simp add: scale_loop_break [OF True small] ladder_ok_Continue)
  next
    case big: False
    show ?thesis
    proof (cases "jpeg_size img ?nw ?nh 85")
      case None
      show ?thesis
        by (simp add: scale_loop_raise [OF True big None] ladder_ok_Raised [OF None])
    next
      case (Some k)
      show ?thesis
      proof (cases "fits k m")
        case fit: True
        show ?thesis
          by (simp add: scale_loop_return [OF True big Some fit] ladder_ok_Returned [OF fit])
      next
        case nofit: False
        from assms [of "acc @ [(?nw, ?nh, 85)]"] obtain r where
          r: "scale_loop img m w h (fl (s - fl (1 / 10))) (acc @ [(?nw, ?nh, 85)]) = Some r"
          and ok: "ladder_ok img m DimensionLadder n (acc @ [(?nw, ?nh, 85)]) r"
          by blast
        from ok have "ladder_ok img m DimensionLadder (Suc n) acc r"
          by (rule ladder_ok_step)
        then show ?thesis
          by (simp add: scale_loop_next [OF True big Some nofit] r)
      qed
    qed
  qed
qed

lemma fl_literals:
  "fl (8 / 10) = 3602879701896397 / 4503599627370496"
  "fl (1 / 10) = 3602879701896397 / 36028797018963968"
  "fl (3 / 10) = 5404319552844595 / 18014398509481984"
  by code_simp+

lemma scale_sequence:
  "fl (3602879701896397 / 4503599627370496 - 3602879701896397 / 36028797018963968) = 6305039478318695 / 9007199254740992"
  "fl (6305039478318695 / 9007199254740992 - 3602879701896397 / 36028797018963968) = 1351079888211149 / 2251799813685248"
  "fl (1351079888211149 / 2251799813685248 - 3602879701896397 / 36028797018963968) = 4503599627370497 / 9007199254740992"
  "fl (4503599627370497 / 9007199254740992 - 3602879701896397 / 36028797018963968) = 1801439850948199 / 4503599627370496"
  "fl (1801439850948199 / 4503599627370496 - 3602879701896397 / 36028797018963968) = 2702159776422299 / 9007199254740992"
  "fl (2702159776422299 / 9007199254740992 - 3602879701896397 / 36028797018963968) = 7205759403792799 / 36028797018963968"
  by code_simp+


lemma scale_loop_6:
  "\<exists>r. scale_loop img m w h (7205759403792799 / 36028797018963968) acc = Some r \<and>
       ladder_ok img m DimensionLadder 0 acc r"
  by (simp add: scale_loop_base fl_literals ladder_ok_Continue)

lemma scale_loop_5:
  "\<exists>r. scale_loop img m w h (2702159776422299 / 9007199254740992) acc = Some r \<and>
       ladder_ok img m DimensionLadder (Suc 0) acc r"
  by (rule scale_loop_step) (simp only: fl_literals scale_sequence scale_loop_6)

lemma scale_loop_4:
  "\<exists>r. scale_loop img m w h (1801439850948199 / 4503599627370496) acc = Some r \<and>
       ladder_ok img m DimensionLadder (Suc (Suc 0)) acc r"
  by (rule scale_loop_step) (simp only: fl_literals scale_sequence scale_loop_5)

lemma scale_loop_3:
  "\<exists>r. scale_loop img m w h (4503599627370497 / 9007199254740992) acc = Some r \<and>
       ladder_ok img m DimensionLadder (Suc (Suc (Suc 0))) acc r"
  by (rule scale_loop_step) (simp only: fl_literals scale_sequence scale_loop_4)

lemma scale_loop_2:
  "\<exists>r. scale_loop img m w h (1351079888211149 / 2251799813685248) acc = Some r \<and>
       ladder_ok img m DimensionLadder (Suc (Suc (Suc (Suc 0)))) acc r"
  by (rule scale_loop_step) (simp only: fl_literals scale_sequence scale_loop_3)

lemma scale_loop_1:
  "\<exists>r. scale_loop img m w h (6305039478318695 / 9007199254740992) acc = Some r \<and>
       ladder_ok img m DimensionLadder (Suc (Suc (Suc (Suc (Suc 0))))) acc r"
  by (rule scale_loop_step) (simp only: fl_literals scale_sequence scale_loop_2)

lemma scale_loop_0:
  "\<exists>r. scale_loop img m w h (fl (8 / 10)) acc = Some r \<and>
       ladder_ok img m DimensionLadder 6 acc r"
proof -
  have "\<exists>r. scale_loop img m w h (3602879701896397 / 4503599627370496) acc = Some r \<and>
       ladder_ok img m DimensionLadder (Suc (Suc (Suc (Suc (Suc (Suc 0)))))) acc r"
    by (rule scale_loop_step) (simp only: fl_literals scale_sequence scale_loop_1)
  moreover have "(6::nat) = Suc (Suc (Suc (Suc (Suc (Suc 0)))))"
    by simp
  ultimately show ?thesis
    by (simp only: fl_literals(1))
qed


lemma round_aspect_pos: "0 < round_aspect number key"
  by (simp add: round_aspect_def)

lemma thumbnail_pos:
  assumes "0 < w" "0 < h" "0 < d"
  shows "\<exists>w' h'. thumbnail (d, d) (w, h) = Some (w', h') \<and> 0 < w' \<and> 0 < h'"
  using assms by (simp add: thumbnail_def Let_def round_aspect_pos)

lemma upscale_defined:
  assumes "0 < w" "0 < h"
  shows "\<exists>sz. upscale (w, h) = Some sz"
  using assms by (simp add: upscale_def Let_def min_def)

lemma working_size_defined:
  assumes "decoded img = Some (w, h)" "0 < w" "0 < h" "0 < d"
  shows "\<exists>sz. working_size img d = Some sz"
proof (cases "w > d \<or> h > d")
  case True
  from thumbnail_pos [OF assms(2-4)] obtain w' h' where
    t: "thumbnail (d, d) (w, h) = Some (w', h')" and pos: "0 < w'" "0 < h'"
    by blast
  from upscale_defined [OF pos] obtain sz where "upscale (w', h') = Some sz" ..
  with True t assms(1) show ?thesis
    by (simp add: working_size_def)
next
  case False
  from upscale_defined [OF assms(2,3)] obtain sz where "upscale (w, h) = Some sz" ..
  with False assms(1) show ?thesis
    by (simp add: working_size_def)
qed

lemma last_resort_ok:
  assumes "length acc \<le> 20"
  shows "compress_ok img m w h (last_resort img w h acc)"
  using assms
  by (auto simp: compress_ok_def last_resort_def encoder_total_def split: option.splits)

lemma compress_total: "\<exists>r. compress img m w h = Some r \<and> compress_ok img m w h r"
proof -
  obtain o1 acc1 where q: "quality_loop img m w h 90 [] = (o1, acc1)"
    by (cases "quality_loop img m w h 90 []")
  from quality_loop_ok [of img m 90 "[]" w h] q
  have ok1: "ladder_ok img m QualityLadder 14 [] (o1, acc1)"
    by simp
  then have len1: "length acc1 \<le> 14"
    by (auto simp: ladder_ok_def)
  show ?thesis
  proof (cases o1)
    case (Returned p)
    with ok1 len1 q show ?thesis
      by (auto simp: compress_def compress_ok_def ladder_ok_def)
  next
    case Raised
    with ok1 len1 q show ?thesis
      by (auto simp: compress_def compress_ok_def ladder_ok_def)
  next
    case Continue
    from scale_loop_0 [of img m w h acc1] obtain o2 acc2 where
      s: "scale_loop img m w h (fl (8 / 10)) acc1 = Some (o2, acc2)"
      and ok2: "ladder_ok img m DimensionLadder 6 acc1 (o2, acc2)"
      by auto
    from ok2 len1 have len2: "length acc2 \<le> 20"
      by (auto simp: ladder_ok_def)
    show ?thesis
    proof (cases o2)
      case (Returned p)
      with ok2 len2 q s Continue show ?thesis
        by (auto simp: compress_def compress_ok_def ladder_ok_def)
    next
      case Raised
      with ok2 len2 q s Continue show ?thesis
        by (auto simp: compress_def compress_ok_def ladder_ok_def)
    next
      case c2: Continue
      with q s Continue have "compress img m w h = Some (last_resort img w h acc2)"
        by (simp add: compress_def)
      with last_resort_ok [OF len2] show ?thesis
        by simp
    qed
  qed
qed

lemma resize_image_if_needed_total:
  "\<exists>p steps. resize_image_if_needed img m d = Some (p, steps) \<and> length steps \<le> 21 \<and>
     (p = Fallback \<or>
      (\<exists>st w h q n. p = Encoded st w h q n \<and>
         (fits n m \<or> st = LastResort \<and> q = 70 \<and> steps \<noteq> [] \<and> last steps = (w, h, 70)))) \<and>
     (decodable img \<and> encoder_total img \<and> 0 < d \<longrightarrow> p \<noteq> Fallback)"
proof (cases "working_size img d")
  case None
  have "\<not> (decodable img \<and> encoder_total img \<and> 0 < d)"
  proof
    assume "decodable img \<and> encoder_total img \<and> 0 < d"
    then obtain w h where "decoded img = Some (w, h)" "0 < w" "0 < h" "0 < d"
      by (auto simp: decodable_def)
    from working_size_defined [OF this] None show False
      by simp
  qed
  with None show ?thesis
    by (simp add: resize_image_if_needed_def)
next
  case (Some sz)
  obtain w h where sz: "sz = (w, h)"
    by (cases sz)
  from compress_total [of img m w h] obtain o1 acc where
    c: "compress img m w h = Some (o1, acc)" and ok: "compress_ok img m w h (o1, acc)"
    by auto
  show ?thesis
  proof (cases o1)
    case (Returned p)
    with Some sz c ok show ?thesis
      by (auto simp: resize_image_if_needed_def compress_ok_def)
  next
    case Raised
    with Some sz c ok show ?thesis
      by (auto simp: resize_image_if_needed_def compress_ok_def)
  next
    case Continue
    with ok show ?thesis
      by (simp add: compress_ok_def)
  qed
qed

lemma terminates_normalize: "terminates (normalize img)"
  using resize_image_if_needed_total [of img 2 2048]
  by (auto simp: terminates_def normalize_def)

section \<open>The normalizer on concrete images\<close>

lemma fl_wide:
  "fl 100 = 100" "fl 1 = 1"
  "fl (512 / 25) = 5764607523034235 / 281474976710656"
  "fl (512 / 5) = 3602879701896397 / 35184372088832"
  "fl (2048 / 21) = 857828500451523 / 8796093022208"
  "fl (- (84442493013197 / 35184372088832)) = - (84442493013197 / 35184372088832)"
  "fl (21780801769277 / 8796093022208) = 21780801769277 / 8796093022208"
  "\<lfloor>5764607523034235 / 281474976710656 :: rat\<rfloor> = 20"
  "\<lceil>5764607523034235 / 281474976710656 :: rat\<rceil> = 21"
  by code_simp+

lemma thumbnail_wide: "thumbnail (2048, 2048) (10000, 100) = Some (2048, 20)"
  by (simp add: thumbnail_def round_aspect_def Let_def fl_wide)

lemma fl_upscale:
  "fl (12 / 5) = 5404319552844595 / 2251799813685248"
  "fl (5404319552844595 / 1099511627776) = 5404319552844595 / 1099511627776"
  "fl (27021597764222975 / 562949953421312) = 48"
  "\<lfloor>5404319552844595 / 1099511627776 :: rat\<rfloor> = 4915"
  by code_simp+

lemma upscale_wide: "upscale (2048, 20) = Some (4915, 48)"
  by (simp add: upscale_def min_dimension_def Let_def fl_upscale)

lemma fl_sizes:
  "fl (125 / 131072) = 125 / 131072"
  "fl (3125 / 65536) = 3125 / 65536"
  by code_simp+

lemma fits_1000: "fits 1000 2"
  by (simp add: fits_def fl_sizes)

lemma fits_50000: "fits 50000 2"
  by (simp add: fits_def fl_sizes)

lemma working_size_wide: "working_size wide_image 2048 = Some (4915, 48)"
  by (simp add: working_size_def wide_image_def thumbnail_wide upscale_wide)

lemma jpeg_size_wide: "jpeg_size wide_image w h q = Some 1000"
  by (simp add: wide_image_def)

lemma jpeg_size_small: "jpeg_size small_image w h q = Some 50000"
  by (simp add: small_image_def)

lemma resize_small:
  "resize_image_if_needed small_image 2 2048 =
     Some (Encoded QualityLadder 640 480 90 50000, [(640, 480, 90)])"
proof -
  have "working_size small_image 2048 = Some (640, 480)"
    by (simp add: working_size_def small_image_def upscale_def min_dimension_def)
  moreover have "quality_loop small_image 2 640 480 90 [] =
      (Returned (Encoded QualityLadder 640 480 90 50000), [(640, 480, 90)])"
    by (subst quality_loop.simps) (simp add: jpeg_size_small fits_50000)
  ultimately show ?thesis
    by (simp add: resize_image_if_needed_def compress_def)
qed

lemma fl_budget:
  "fl 8 = 8"
  "fl (46875 / 16384) = 46875 / 16384"
  by code_simp+

lemma not_fits_3000000: "\<not> fits 3000000 2"
  by (simp add: fits_def fl_budget)

lemma not_fits_raw: "\<not> fits 8388608 2"
  by (simp add: fits_def fl_budget)

text \<open>The scan whose encoding the JPEG writer refuses: the first \<open>save\<close> raises.\<close>

lemma resize_odd_mode:
  "resize_image_if_needed odd_mode_image 2 2048 = Some (Fallback, [(2000, 2000, 90)])"
proof -
  have "working_size odd_mode_image 2048 = Some (2000, 2000)"
    by (simp add: working_size_def odd_mode_image_def upscale_def min_dimension_def)
  moreover have "quality_loop odd_mode_image 2 2000 2000 90 [] = (Raised, [(2000, 2000, 90)])"
    by (subst quality_loop.simps) (simp add: odd_mode_image_def)
  ultimately show ?thesis
    by (simp add: resize_image_if_needed_def compress_def)
qed

text \<open>
  The picture whose encodings never fit: fourteen encodings in the quality loop, six in the
  dimension loop (the scales 0.8, 0.7000000000000001, 0.6000000000000001,
  0.5000000000000001, 0.40000000000000013, 0.30000000000000016), then the last resort.
\<close>

lemma jpeg_size_noise: "jpeg_size noise_image w h q = Some 3000000"
  by (simp add: noise_image_def)

lemma working_size_noise: "working_size noise_image 2048 = Some (2000, 1500)"
  by (simp add: working_size_def noise_image_def upscale_def min_dimension_def)

lemma quality_loop_noise:
  "quality_loop noise_image 2 2000 1500 90 [] =
     (Continue,
      [(2000, 1500, 90), (2000, 1500, 85), (2000, 1500, 80), (2000, 1500, 75),
       (2000, 1500, 70), (2000, 1500, 65), (2000, 1500, 60), (2000, 1500, 55),
       (2000, 1500, 50), (2000, 1500, 45), (2000, 1500, 40), (2000, 1500, 35),
       (2000, 1500, 30), (2000, 1500, 25)])"
  by (subst quality_loop.simps, simp add: jpeg_size_noise not_fits_3000000)+

lemma fl_noise:
  "fl (450359962737049625 / 281474976710656) = 1600"
  "fl (1351079888211148875 / 1125899906842624) = 1200"
  "fl (788129934789836875 / 562949953421312) = 6157265115545601 / 4398046511104"
  "fl (2364389804369510625 / 2251799813685248) = 1050"
  "fl (168884986026393625 / 140737488355328) = 5277655813324801 / 4398046511104"
  "fl (506654958079180875 / 562949953421312) = 7916483719987201 / 8796093022208"
  "fl (562949953421312125 / 562949953421312) = 4398046511104001 / 4398046511104"
  "fl (1688849860263936375 / 2251799813685248) = 6597069766656001 / 8796093022208"
  "fl (225179981368524875 / 281474976710656) = 3518437208883201 / 4398046511104"
  "fl (675539944105574625 / 1125899906842624) = 2638827906662401 / 4398046511104"
  "fl (337769972052787375 / 562949953421312) = 5277655813324803 / 8796093022208"
  "fl (1013309916158362125 / 2251799813685248) = 1979120929996801 / 4398046511104"
  by code_simp+

lemma fl_scales:
  "fl (4 / 5) = 3602879701896397 / 4503599627370496"
  "fl (25220157913274779 / 36028797018963968) = 6305039478318695 / 9007199254740992"
  "fl (21617278211378383 / 36028797018963968) = 1351079888211149 / 2251799813685248"
  "fl (18014398509481987 / 36028797018963968) = 4503599627370497 / 9007199254740992"
  "fl (14411518807585591 / 36028797018963968) = 1801439850948199 / 4503599627370496"
  "fl (10808639105689195 / 36028797018963968) = 2702159776422299 / 9007199254740992"
  "fl (7205759403792799 / 36028797018963968) = 7205759403792799 / 36028797018963968"
  by code_simp+

lemma scale_noise_6:
  "scale_loop noise_image 2 2000 1500 (7205759403792799 / 36028797018963968) acc = Some (Continue, acc)"
  by (simp add: scale_loop_base fl_literals)

lemma floor_noise:
  "\<lfloor>6157265115545601 / 4398046511104 :: rat\<rfloor> = 1400"
  "\<lfloor>5277655813324801 / 4398046511104 :: rat\<rfloor> = 1200"
  "\<lfloor>7916483719987201 / 8796093022208 :: rat\<rfloor> = 900"
  "\<lfloor>4398046511104001 / 4398046511104 :: rat\<rfloor> = 1000"
  "\<lfloor>6597069766656001 / 8796093022208 :: rat\<rfloor> = 750"
  "\<lfloor>3518437208883201 / 4398046511104 :: rat\<rfloor> = 800"
  "\<lfloor>2638827906662401 / 4398046511104 :: rat\<rfloor> = 600"
  "\<lfloor>5277655813324803 / 8796093022208 :: rat\<rfloor> = 600"
  "\<lfloor>1979120929996801 / 4398046511104 :: rat\<rfloor> = 450"
  by code_simp+

lemma scale_noise_5:
  "scale_loop noise_image 2 2000 1500 (2702159776422299 / 9007199254740992) acc =
     Some (Continue, acc @ [(600, 450, 85)])"
  by (subst scale_loop.simps)
    (simp add: Let_def fl_literals fl_scales fl_noise floor_noise min_dimension_def
      jpeg_size_noise not_fits_3000000 scale_noise_6)

lemma scale_noise_4:
  "scale_loop noise_image 2 2000 1500 (1801439850948199 / 4503599627370496) acc =
     Some (Continue, acc @ [(800, 600, 85), (600, 450, 85)])"
  by (subst scale_loop.simps)
    (simp add: Let_def fl_literals fl_scales fl_noise floor_noise min_dimension_def
      jpeg_size_noise not_fits_3000000 scale_noise_5)

lemma scale_noise_3:
  "scale_loop noise_image 2 2000 1500 (4503599627370497 / 9007199254740992) acc =
     Some (Continue, acc @ [(1000, 750, 85), (800, 600, 85), (600, 450, 85)])"
  by (subst scale_loop.simps)
    (simp add: Let_def fl_literals fl_scales fl_noise floor_noise min_dimension_def
      jpeg_size_noise not_fits_3000000 scale_noise_4)

lemma scale_noise_2:
  "scale_loop noise_image 2 2000 1500 (1351079888211149 / 2251799813685248) acc =
     Some (Continue, acc @ [(1200, 900, 85), (1000, 750, 85), (800, 600, 85), (600, 450, 85)])"
  by (subst scale_loop.simps)
    (simp add: Let_def fl_literals fl_scales fl_noise floor_noise min_dimension_def
      jpeg_size_noise not_fits_3000000 scale_noise_3)

lemma scale_noise_1:
  "scale_loop noise_image 2 2000 1500 (6305039478318695 / 9007199254740992) acc =
     Some (Continue, acc @ [(1400, 1050, 85), (1200, 900, 85), (1000, 750, 85), (800, 600, 85), (600, 450, 85)])"
  by (subst scale_loop.simps)
    (simp add: Let_def fl_literals fl_scales fl_noise floor_noise min_dimension_def
      jpeg_size_noise not_fits_3000000 scale_noise_2)

lemma scale_noise_0:
  "scale_loop noise_image 2 2000 1500 (3602879701896397 / 4503599627370496) acc =
     Some (Continue, acc @ [(1600, 1200, 85), (1400, 1050, 85), (1200, 900, 85), (1000, 750, 85), (800, 600, 85), (600, 450, 85)])"
  by (subst scale_loop.simps)
    (simp add: Let_def fl_literals fl_scales fl_noise floor_noise min_dimension_def
      jpeg_size_noise not_fits_3000000 scale_noise_1)

lemma resize_noise:
  "resize_image_if_needed noise_image 2 2048 =
     Some (Encoded LastResort 2000 1500 70 3000000,
           [(2000, 1500, 90), (2000, 1500, 85), (2000, 1500, 80), (2000, 1500, 75),
            (2000, 1500, 70), (2000, 1500, 65), (2000, 1500, 60), (2000, 1500, 55),
            (2000, 1500, 50), (2000, 1500, 45), (2000, 1500, 40), (2000, 1500, 35),
            (2000, 1500, 30), (2000, 1500, 25),
            (1600, 1200, 85), (1400, 1050, 85), (1200, 900, 85), (1000, 750, 85),
            (800, 600, 85), (600, 450, 85),
            (2000, 1500, 70)])"
  by (simp add: resize_image_if_needed_def working_size_noise compress_def quality_loop_noise
      fl_scales scale_noise_0 last_resort_def jpeg_size_noise)

lemma odd_mode_opens:
  "decodable odd_mode_image" "payload_size odd_mode_image Fallback = 8388608"
  by (simp_all add: decodable_def payload_size_def odd_mode_image_def)

lemma noise_handled: "decodable noise_image" "encoder_total noise_image"
  by (simp_all add: decodable_def encoder_total_def noise_image_def)

section \<open>Claims about the normalizer\<close>

text \<open>
  C5. For every decodable image whose longer side exceeds 2048 pixels the normalized image
  has a longer side of at most 2048 pixels, with the aspect ratio kept up to rounding.
  The code breaks this on a 10000 by 100 image: \<open>thumbnail\<close> brings it to 2048 by 20, the
  minimum-dimension step then scales it by 48 / 20 to 4915 by 48, and that is the size of
  the image returned.
\<close>

theorem wide_image_exceeds_max_dimension:
  "resize_image_if_needed wide_image 2 2048 =
     Some (Encoded QualityLadder 4915 48 90 1000, [(4915, 48, 90)])"
proof -
  have "quality_loop wide_image 2 4915 48 90 [] =
      (Returned (Encoded QualityLadder 4915 48 90 1000), [(4915, 48, 90)])"
    by (subst quality_loop.simps) (simp add: jpeg_size_wide fits_1000)
  then show ?thesis
    by (simp add: resize_image_if_needed_def working_size_wide compress_def)
qed

text \<open>
  C6, as stated, fails: a decodable image need not come back within the budget or from the
  last resort. The source converts only the modes \<open>RGBA\<close>, \<open>LA\<close> and \<open>P\<close> (line 63); an
  image of another mode the JPEG writer refuses, here a 2000 by 2000 scan of 8 MiB, is
  opened, the first \<open>save\<close> (line 98) raises, and the handler (line 142) returns the input
  bytes: 8 MiB, above the budget of 2 MB, and produced by no encoding at all.
\<close>

theorem odd_mode_image_returned_unchanged:
  "decodable odd_mode_image \<and>
   resize_image_if_needed odd_mode_image 2 2048 = Some (Fallback, [(2000, 2000, 90)]) \<and>
   payload_size odd_mode_image Fallback = 8388608 \<and> \<not> fits 8388608 2"
  by (simp add: resize_odd_mode not_fits_raw odd_mode_opens)

text \<open>
  C6, amended. For every image the normalizer returns, after at most 21 encodings (14 in
  the quality loop, 6 in the dimension loop, the last resort). What it returns is the input
  bytes unchanged (the exception handler), or an encoding that fits the byte budget, or the
  last-resort encoding at quality 70, which is then the final encoding made. The input
  bytes are returned only when the library raised: never for a decodable image all of
  whose encodings succeed, with a positive \<open>max_dimension\<close>.
\<close>

theorem compression_ladder_bounded:
  "\<exists>p steps. resize_image_if_needed img max_size_mb max_dimension = Some (p, steps) \<and>
     length steps \<le> 21 \<and>
     (p = Fallback \<or>
      (\<exists>st w h q n. p = Encoded st w h q n \<and>
         (fits n max_size_mb \<or>
          st = LastResort \<and> q = 70 \<and> steps \<noteq> [] \<and> last steps = (w, h, 70)))) \<and>
     (decodable img \<and> encoder_total img \<and> 0 < max_dimension \<longrightarrow> p \<noteq> Fallback)"
  by (rule resize_image_if_needed_total)

theorem compression_ladder_bounded_witness:
  "decodable noise_image \<and> encoder_total noise_image \<and> (0::nat) < 2048 \<and>
   (\<exists>steps.
      resize_image_if_needed noise_image 2 2048 =
        Some (Encoded LastResort 2000 1500 70 3000000, steps) \<and>
      length steps = 21 \<and> last steps = (2000, 1500, 70)) \<and>
   \<not> fits 3000000 2"
  using compression_ladder_bounded [of noise_image 2 2048]
  by (simp add: resize_noise not_fits_3000000 noise_handled)

section \<open>Computations\<close>

lemma bind_Inr:
  "bind m f s = Some (Inr y, s') \<longleftrightarrow>
     (\<exists>x s1. m s = Some (Inr x, s1) \<and> f x s1 = Some (Inr y, s'))"
  by (auto simp: bind_def split: option.splits sum.splits)

lemma bind_Inl:
  "bind m f s = Some (Inl e, s') \<longleftrightarrow>
     m s = Some (Inl e, s') \<or> (\<exists>x s1. m s = Some (Inr x, s1) \<and> f x s1 = Some (Inl e, s'))"
  by (auto simp: bind_def split: option.splits sum.splits)

lemma try_except_Inr:
  "try_except m h s = Some (Inr y, s') \<longleftrightarrow>
     m s = Some (Inr y, s') \<or> (\<exists>e s1. m s = Some (Inl e, s1) \<and> h e s1 = Some (Inr y, s'))"
  by (auto simp: try_except_def split: option.splits sum.splits)

lemma try_except_Inl:
  "try_except m h s = Some (Inl e', s') \<longleftrightarrow>
     (\<exists>e s1. m s = Some (Inl e, s1) \<and> h e s1 = Some (Inl e', s'))"
  by (auto simp: try_except_def split: option.splits sum.splits)

lemma ret_eq: "ret x s = Some (r, s') \<longleftrightarrow> r = Inr x \<and> s' = s"
  by (auto simp: ret_def)

lemma raise_eq: "raise e s = Some (r, s') \<longleftrightarrow> r = Inl e \<and> s' = s"
  by (auto simp: raise_def)

lemma save_face_data_raises:
  "save_face_data self w face_token s = Some (Inl e, s') \<Longrightarrow>
     \<exists>text. e = HTTPException 500 (''Error saving face data: '' @ text)"
  by (auto simp: save_face_data_def try_except_Inl raise_eq)

lemma save_face_data_returns:
  "save_face_data self w face_token s = Some (Inr b, s') \<Longrightarrow> b"
  unfolding save_face_data_def try_except_Inr
  by (auto simp: bind_Inr ret_eq raise_eq split: if_splits option.splits)


lemma terminatesD: "terminates m \<Longrightarrow> \<exists>r s'. m s = Some (r, s')"
  unfolding terminates_def by (cases "m s") fastforce+

lemma terminates_ret: "terminates (ret x)"
  by (simp add: terminates_def ret_def)

lemma terminates_raise: "terminates (raise e)"
  by (simp add: terminates_def raise_def)

lemma terminates_emit: "terminates (emit ev)"
  by (simp add: terminates_def emit_def)

lemma terminates_lift: "terminates (lift r)"
  by (simp add: lift_def terminates_ret terminates_raise split: sum.splits)

lemma terminates_bind:
  "terminates m \<Longrightarrow> (\<And>x. terminates (f x)) \<Longrightarrow> terminates (bind m f)"
  by (auto simp: terminates_def bind_def split: option.splits sum.splits)

lemma terminates_try_except:
  "terminates m \<Longrightarrow> (\<And>e. terminates (h e)) \<Longrightarrow> terminates (try_except m h)"
  by (auto simp: terminates_def try_except_def split: option.splits sum.splits)

lemma terminates_reraise_http: "terminates (reraise_http label e)"
  by (simp add: reraise_http_def terminates_raise split: exn.splits)

lemma terminates_requests_post: "terminates (requests_post w operation url data files)"
  by (simp add: terminates_def requests_post_def)

lemmas terminates_intros =
  terminates_ret terminates_raise terminates_emit terminates_lift terminates_bind
  terminates_try_except terminates_reraise_http terminates_requests_post

lemma terminates_request_loop:
  "terminates (request_loop self w url data files operation attempts)"
proof (induction attempts)
  case Nil
  show ?case by (simp add: terminates_ret)
next
  case (Cons attempt rest)
  show ?case
    by (auto simp: handle_rate_limit_def intro!: terminates_intros Cons
          split: http_outcome.splits exn.splits option.splits)
qed

lemma terminates_make_request: "terminates (make_request self w url data files operation)"
  by (simp add: make_request_def terminates_request_loop)

lemma terminates_create_new_faceset: "terminates (create_new_faceset self w)"
  by (auto simp: create_new_faceset_def Let_def
        intro!: terminates_intros terminates_make_request split: option.splits list.splits)

lemma terminates_add_face_to_faceset: "terminates (add_face_to_faceset self w face_token outer_id)"
  by (auto simp: add_face_to_faceset_def Let_def
        intro!: terminates_intros terminates_make_request split: option.splits)

lemma terminates_search_faces: "terminates (search_faces self w face_token outer_id)"
  by (auto simp: search_faces_def Let_def
        intro!: terminates_intros terminates_make_request split: option.splits)

lemma terminates_get_faceset_detail: "terminates (get_faceset_detail self w outer_id)"
  by (auto simp: get_faceset_detail_def Let_def
        intro!: terminates_intros terminates_make_request split: option.splits)

lemma terminates_search_loop: "terminates (search_loop self w face_token facesets matches)"
proof (induction facesets arbitrary: matches)
  case Nil
  show ?case by (simp add: terminates_ret)
next
  case (Cons faceset rest)
  obtain faceset_id stored_tokens where "faceset = (faceset_id, stored_tokens)"
    by (cases faceset)
  then show ?case
    by (auto intro!: terminates_intros terminates_search_faces Cons)
qed

lemma terminates_search_similar_faces: "terminates (search_similar_faces self w face_token)"
  by (auto simp: search_similar_faces_def intro!: terminates_intros terminates_search_loop)

lemma terminates_save_face_data: "terminates (save_face_data self w face_token)"
  by (auto simp: save_face_data_def
        intro!: terminates_intros terminates_get_faceset_detail terminates_create_new_faceset
          terminates_add_face_to_faceset
        split: option.splits list.splits)

lemmas prog_defs =
  bind_def ret_def raise_def try_except_def emit_def lift_def reraise_http_def
  handle_rate_limit_def requests_post_def

section \<open>The outcomes of \<open>verify_face\<close>\<close>

lemma detect_face_never_raises:
  "detect_face self w image_data s \<noteq> Some (Inl e, s')"
  by (simp add: detect_face_def try_except_Inl ret_eq)

lemma search_similar_faces_raises:
  "search_similar_faces self w face_token s = Some (Inl e, s') \<Longrightarrow>
     \<exists>text. e = HTTPException 500 (''Error during face search: '' @ text)"
  by (auto simp: search_similar_faces_def try_except_Inl raise_eq)

lemma validate_face_attributes_raises:
  "validate_face_attributes self attributes = Inl e \<Longrightarrow>
     e = PyException ''AttributeError'' \<or> e = PyException ''TypeError''"
  by (auto simp: validate_face_attributes_def face_quality_of_def greater_than_def Let_def
        split: if_splits sum.splits option.splits attr.splits jval.splits)

lemma validate_face_attributes_rejects:
  "validate_face_attributes self attributes = Inr (False, message) \<Longrightarrow>
     message = ''No face attributes detected'' \<or>
     message = ''Unable to detect human face characteristics''"
  by (auto simp: validate_face_attributes_def Let_def split: if_splits sum.splits)

lemma lift_eq: "lift r s = Some (r', s') \<longleftrightarrow> r' = r \<and> s' = s"
  by (cases r) (auto simp: lift_def ret_eq raise_eq)

lemma verify_face_cases:
  assumes "verify_face self w image_data s = Some (Inr r, s')"
  shows "(\<exists>message. r = error_response message \<and> message \<noteq> ''Failed to save face data'') \<or>
         (\<exists>token c ms. r = \<lparr>v_status = ''duplicate_found'',
                               v_message = ''Potential duplicate face detected'',
                               v_is_duplicate = True, v_face_token = Some token,
                               v_confidence = Some c, v_matches = Some ms\<rparr>) \<or>
         (\<exists>token. r = \<lparr>v_status = ''success'', v_message = ''New face registered successfully'',
                          v_is_duplicate = False, v_face_token = Some token,
                          v_confidence = None, v_matches = None\<rparr>)"
proof (cases "detect_face (fpp_manager self) w image_data s")
  case None
  with assms show ?thesis
    by (simp add: verify_face_def try_except_def bind_def)
next
  case (Some d)
  obtain face_token attributes s1 where
    d: "detect_face (fpp_manager self) w image_data s = Some (Inr (face_token, attributes), s1)"
    using Some detect_face_never_raises [of "fpp_manager self" w image_data s]
    by (cases d; cases "fst d") auto
  let ?attrs = "case attributes of None \<Rightarrow> [] | Some a \<Rightarrow> a"
  consider (none) "face_token = None \<or> face_token = Some []"
    | (token) c cs where "face_token = Some (c # cs)"
    by (cases face_token; cases "the face_token") auto
  then show ?thesis
  proof cases
    case none
    with assms d show ?thesis
      by (auto simp: verify_face_def try_except_def bind_def ret_def)
  next
    case token
    show ?thesis
    proof (cases "validate_face_attributes self ?attrs")
      case (Inl e)
      with assms d token have "r = error_response (exn_str e)"
        by (simp add: verify_face_def try_except_def bind_def ret_def lift_def raise_def)
      with validate_face_attributes_raises [OF Inl] show ?thesis
        by auto
    next
      case (Inr v)
      obtain is_valid message where v: "v = (is_valid, message)"
        by (cases v)
      show ?thesis
      proof (cases is_valid)
        case False
        with assms d token Inr v have "r = error_response message"
          by (simp add: verify_face_def try_except_def bind_def ret_def lift_def)
        with validate_face_attributes_rejects [of self ?attrs message] Inr v False
        show ?thesis
          by auto
      next
        case True
        show ?thesis
        proof (cases "search_similar_faces self w (c # cs) s1")
          case None
          with assms d token Inr v True show ?thesis
            by (simp add: verify_face_def try_except_def bind_def ret_def lift_def)
        next
          case (Some found)
          obtain res s2 where found: "found = (res, s2)"
            by (cases found)
          show ?thesis
          proof (cases res)
            case (Inl e)
            with assms d token Inr v True Some found have "r = error_response (exn_str e)"
              by (simp add: verify_face_def try_except_def bind_def ret_def lift_def)
            with search_similar_faces_raises [of self w "c # cs" s1 e s2] Some found Inl
            show ?thesis
              by auto
          next
            case matches: (Inr matches)
            show ?thesis
            proof (cases matches)
              case (Cons best_match others)
              with assms d token Inr v True Some found matches show ?thesis
                by (auto simp: verify_face_def try_except_def bind_def ret_def lift_def)
            next
              case Nil
              show ?thesis
              proof (cases "save_face_data self w (c # cs) s2")
                case None
                with assms d token Inr v True Some found matches Nil show ?thesis
                  by (simp add: verify_face_def try_except_def bind_def ret_def lift_def)
              next
                case saved: (Some saved)
                obtain res3 s3 where res3: "saved = (res3, s3)"
                  by (cases saved)
                show ?thesis
                proof (cases res3)
                  case (Inl e)
                  with assms d token Inr v True Some found matches Nil saved res3
                  have "r = error_response (exn_str e)"
                    by (simp add: verify_face_def try_except_def bind_def ret_def lift_def)
                  with save_face_data_raises [of self w "c # cs" s2 e s3] saved res3 Inl
                  show ?thesis
                    by auto
                next
                  case b: (Inr b)
                  with save_face_data_returns [of self w "c # cs" s2 b s3] saved res3
                  have b
                    by simp
                  with assms d token Inr v True Some found matches Nil saved res3 b
                  show ?thesis
                    by (auto simp: verify_face_def try_except_def bind_def ret_def lift_def)
                qed
              qed
            qed
          qed
        qed
      qed
    qed
  qed
qed

section \<open>The duplicate search\<close>

lemma collect_matches_eq:
  "collect_matches self rs matches = matches @ above_threshold self rs"
  by (induction rs arbitrary: matches) (auto simp: above_threshold_def to_match_def Let_def)

lemma search_loop_eq:
  "\<exists>s'. search_loop self w face_token facesets matches s =
          Some (Inr (matches @ gathered self (search_outcomes self w face_token facesets s)), s')"
proof (induction facesets arbitrary: matches s)
  case Nil
  show ?case by (simp add: ret_def gathered_def)
next
  case (Cons faceset rest)
  obtain faceset_id stored_tokens where f: "faceset = (faceset_id, stored_tokens)"
    by (cases faceset)
  show ?case
  proof (cases "stored_tokens = []")
    case True
    with Cons [of matches s] f show ?thesis by simp
  next
    case False
    from terminatesD [OF terminates_search_faces, of "fpp_manager self" w face_token faceset_id s]
    obtain r s1 where r: "search_faces (fpp_manager self) w face_token faceset_id s = Some (r, s1)"
      by blast
    show ?thesis
    proof (cases r)
      case (Inl e)
      with Cons [of matches s1] f False r show ?thesis
        by (simp add: bind_def try_except_def ret_def gathered_def)
    next
      case (Inr rs)
      with Cons [of "matches @ above_threshold self rs" s1] f False r show ?thesis
        by (simp add: bind_def try_except_def ret_def gathered_def collect_matches_eq)
    qed
  qed
qed

lemma search_similar_faces_eq:
  assumes "get_all_stored_faces w = Inr facesets"
  shows "\<exists>s'. search_similar_faces self w face_token s =
           Some (Inr (sorted_reverse m_confidence
                        (gathered self (search_outcomes self w face_token facesets
                           (s\<lparr>trace := trace s @ [DbGetAllStoredFaces]\<rparr>)))), s')"
proof -
  from search_loop_eq [of self w face_token facesets "[]"
      "s\<lparr>trace := trace s @ [DbGetAllStoredFaces]\<rparr>"]
  obtain s' where "search_loop self w face_token facesets []
      (s\<lparr>trace := trace s @ [DbGetAllStoredFaces]\<rparr>) =
        Some (Inr (gathered self (search_outcomes self w face_token facesets
                           (s\<lparr>trace := trace s @ [DbGetAllStoredFaces]\<rparr>))), s')"
    by auto
  with assms show ?thesis
    by (simp add: search_similar_faces_def try_except_def bind_def emit_def lift_def ret_def)
qed

lemma search_similar_faces_result:
  assumes "search_similar_faces self w face_token s = Some (Inr result, s')"
  shows "\<exists>outcomes. result = sorted_reverse m_confidence (gathered self outcomes)"
proof (cases "get_all_stored_faces w")
  case (Inl e)
  with assms show ?thesis
    by (simp add: search_similar_faces_def try_except_def bind_def emit_def lift_def ret_def
          raise_def)
next
  case (Inr facesets)
  from search_similar_faces_eq [OF Inr, of self face_token s] assms show ?thesis
    by auto
qed

lemma gathered_above_threshold:
  "m \<in> set (gathered self outcomes) \<Longrightarrow> confidence_threshold self \<le> m_confidence m"
  by (auto simp: gathered_def above_threshold_def split: sum.splits)

lemma set_sorted_reverse: "set (sorted_reverse key xs) = set xs"
  by (simp add: sorted_reverse_def)

lemma sorted_reverse_descending:
  "sorted_wrt (\<lambda>a b. key b \<le> key a) (sorted_reverse key xs)"
proof -
  have "sorted (map key (sort_key key (rev xs)))"
    by simp
  then have "sorted_wrt (\<lambda>a b. key a \<le> key b) (sort_key key (rev xs))"
    by (simp add: sorted_map)
  then show ?thesis
    by (simp add: sorted_reverse_def sorted_wrt_rev)
qed

section \<open>Detection and validation\<close>

lemma only_emits_ret: "only_emits P (ret x)"
  by (simp add: only_emits_def ret_def)

lemma only_emits_raise: "only_emits P (raise e)"
  by (simp add: only_emits_def raise_def)

lemma only_emits_lift: "only_emits P (lift r)"
  by (simp add: lift_def only_emits_ret only_emits_raise split: sum.splits)

lemma only_emits_emit: "P ev \<Longrightarrow> only_emits P (emit ev)"
  by (auto simp: only_emits_def emit_def)

lemma only_emits_requests_post:
  "P (Post operation url data files) \<Longrightarrow> only_emits P (requests_post w operation url data files)"
  by (auto simp: only_emits_def requests_post_def)

lemma only_emits_normalize: "only_emits P (normalize img)"
  by (auto simp: only_emits_def normalize_def split: option.splits)

lemma only_emits_bind:
  assumes "only_emits P m" and "\<And>x. only_emits P (f x)"
  shows "only_emits P (bind m f)"
  unfolding only_emits_def
proof (intro allI impI)
  fix s r s'
  assume b: "bind m f s = Some (r, s')"
  then obtain r1 s1 where m: "m s = Some (r1, s1)"
    by (cases "m s") (auto simp: bind_def)
  from assms(1) m obtain evs1 where e1: "trace s1 = trace s @ evs1" "list_all P evs1"
    unfolding only_emits_def by blast
  show "\<exists>evs. trace s' = trace s @ evs \<and> list_all P evs"
  proof (cases r1)
    case (Inl e)
    with b m e1 show ?thesis
      by (auto simp: bind_def)
  next
    case (Inr x)
    with b m have "f x s1 = Some (r, s')"
      by (simp add: bind_def)
    with assms(2) [of x] obtain evs2 where "trace s' = trace s1 @ evs2" "list_all P evs2"
      unfolding only_emits_def by blast
    with e1 show ?thesis
      by auto
  qed
qed

lemma only_emits_try_except:
  assumes "only_emits P m" and "\<And>e. only_emits P (h e)"
  shows "only_emits P (try_except m h)"
  unfolding only_emits_def
proof (intro allI impI)
  fix s r s'
  assume b: "try_except m h s = Some (r, s')"
  then obtain r1 s1 where m: "m s = Some (r1, s1)"
    by (cases "m s") (auto simp: try_except_def)
  from assms(1) m obtain evs1 where e1: "trace s1 = trace s @ evs1" "list_all P evs1"
    unfolding only_emits_def by blast
  show "\<exists>evs. trace s' = trace s @ evs \<and> list_all P evs"
  proof (cases r1)
    case (Inr x)
    with b m e1 show ?thesis
      by (auto simp: try_except_def)
  next
    case (Inl e)
    with b m have "h e s1 = Some (r, s')"
      by (simp add: try_except_def)
    with assms(2) [of e] obtain evs2 where "trace s' = trace s1 @ evs2" "list_all P evs2"
      unfolding only_emits_def by blast
    with e1 show ?thesis
      by auto
  qed
qed

lemmas only_emits_intros =
  only_emits_ret only_emits_raise only_emits_lift only_emits_emit only_emits_requests_post
  only_emits_normalize only_emits_bind only_emits_try_except

lemma request_loop_only_emits:
  assumes "P RateGate" and "\<And>n. P (Sleep n)" and "P (Post operation url data files)"
  shows "only_emits P (request_loop self w url data files operation attempts)"
proof (induction attempts)
  case Nil
  show ?case by (simp add: only_emits_ret)
next
  case (Cons attempt rest)
  show ?case
    by (auto simp: handle_rate_limit_def intro!: only_emits_intros Cons assms
          split: http_outcome.splits exn.splits option.splits)
qed

lemma detect_face_only_emits: "only_emits detect_event (detect_face self w image_data)"
  by (auto simp: detect_face_def Let_def make_request_def detect_event_def
        intro!: only_emits_intros request_loop_only_emits
        split: option.splits list.splits)

lemma detect_face_trace:
  assumes "detect_face self w image_data s = Some (r, s')"
  shows "\<exists>evs. trace s' = trace s @ evs \<and> list_all detect_event evs"
  using assms detect_face_only_emits [of self w image_data]
  unfolding only_emits_def by blast

lemma validate_without_attributes:
  assumes "\<not> is_not_none attributes ''gender''" "\<not> is_not_none attributes ''age''"
    "\<not> is_not_none attributes ''ethnicity''" "quality_is_number attributes"
  shows "validate_face_attributes self attributes = Inr (False, ''No face attributes detected'') \<or>
         validate_face_attributes self attributes =
           Inr (False, ''Unable to detect human face characteristics'')"
  using assms
  by (auto simp: validate_face_attributes_def quality_is_number_def greater_than_def)

lemma validate_low_quality:
  assumes "is_not_none attributes ''gender'' \<or> is_not_none attributes ''age'' \<or>
           is_not_none attributes ''ethnicity''"
    and "face_quality_of attributes = Inr (JNum q)"
  shows "validate_face_attributes self attributes = Inr (True, ''Valid human face detected'')"
proof -
  from assms(1) have "attributes \<noteq> []"
    by (auto simp: is_not_none_def)
  with assms show ?thesis
    by (auto simp: validate_face_attributes_def greater_than_def Let_def)
qed

section \<open>The flow on concrete worlds\<close>

lemma attempts_default: "[0 ..< 3] = [0, 1, 2 :: nat]"
  by (simp add: upt_rec)

lemma normalize_small:
  "normalize small_image s = Some (Inr (Encoded QualityLadder 640 480 90 50000), s)"
  by (simp add: normalize_def resize_small)

lemma rejected_request:
  "make_request example_manager rejecting_world ''/detect'' detect_data
     (Some (Encoded QualityLadder 640 480 90 50000)) ''detect_face'' initial_state =
   Some (Inl (HTTPException 401 ''detect_face failed: AUTHENTICATION_ERROR''),
         \<lparr>posts = 1,
          trace = [RateGate,
                   Post ''detect_face'' ''/detect'' detect_data
                     (Some (Encoded QualityLadder 640 480 90 50000))]\<rparr>)"
  by (simp add: make_request_def attempts_default prog_defs rejecting_world_def quiet_world_def
        error_body_def empty_body_def rate_limit_error_def initial_state_def
        example_manager_def new_manager_def)

lemma rejected_detect:
  "detect_face example_manager rejecting_world small_image initial_state =
   Some (Inr (None, None),
         \<lparr>posts = 1,
          trace = [RateGate,
                   Post ''detect_face'' ''/detect'' detect_data
                     (Some (Encoded QualityLadder 640 480 90 50000))]\<rparr>)"
proof -
  have "get_base_params example_manager @
          [(''return_attributes'', ''gender,age,ethnicity,facequality'')] = detect_data"
    by (simp add: get_base_params_def detect_data_def example_manager_def new_manager_def)
  moreover have "detect_url example_manager = ''/detect''"
    by (simp add: example_manager_def new_manager_def)
  ultimately show ?thesis
    by (simp add: detect_face_def try_except_def bind_def normalize_small rejected_request ret_def)
qed

lemma rejected_verify:
  "verify_face example_verifier rejecting_world small_image initial_state =
   Some (Inr (error_response ''No face detected in image''),
         \<lparr>posts = 1,
          trace = [RateGate,
                   Post ''detect_face'' ''/detect'' detect_data
                     (Some (Encoded QualityLadder 640 480 90 50000))]\<rparr>)"
proof -
  have "fpp_manager example_verifier = example_manager"
    by (simp add: example_verifier_def new_verifier_def)
  then show ?thesis
    by (simp add: verify_face_def try_except_def bind_def rejected_detect ret_def)
qed

lemma stale_detail:
  "get_faceset_detail example_manager stale_world ''faceset_old''
     \<lparr>posts = 0, trace = [DbFindAvailableFaceset]\<rparr> =
   Some (Inl (HTTPException 400 ''get_faceset_detail failed: INVALID_OUTER_ID''),
         \<lparr>posts = 1,
          trace = [DbFindAvailableFaceset, RateGate,
                   Post ''get_faceset_detail'' ''/getdetail'' detail_data None]\<rparr>)"
  by (simp add: get_faceset_detail_def Let_def make_request_def attempts_default prog_defs
        stale_world_def quiet_world_def error_body_def empty_body_def rate_limit_error_def
        example_manager_def new_manager_def get_base_params_def detail_data_def)

lemma stale_save:
  "save_face_data example_verifier stale_world ''tokA'' initial_state =
   Some (Inl (HTTPException 500
                ''Error saving face data: get_faceset_detail failed: INVALID_OUTER_ID''),
         \<lparr>posts = 1,
          trace = [DbFindAvailableFaceset, RateGate,
                   Post ''get_faceset_detail'' ''/getdetail'' detail_data None]\<rparr>)"
proof -
  have "fpp_manager example_verifier = example_manager"
    by (simp add: example_verifier_def new_verifier_def)
  moreover have "find_available_faceset stale_world = Inr (Some (''faceset_old'', 5))"
    by (simp add: stale_world_def quiet_world_def)
  ultimately show ?thesis
    by (simp add: save_face_data_def try_except_def bind_def emit_def lift_def ret_def
          raise_def initial_state_def stale_detail)
qed

lemma search_g2:
  "search_faces example_manager gallery_world ''probe'' ''g2''
     \<lparr>posts = 0, trace = [DbGetAllStoredFaces]\<rparr> =
   Some (Inl (HTTPException 500 ''search_faces failed: INTERNAL_ERROR''),
         \<lparr>posts = 1,
          trace = [DbGetAllStoredFaces,
                   RateGate, Post ''search_faces'' ''/search'' (search_data ''g2'') None]\<rparr>)"
  by (simp add: search_faces_def Let_def make_request_def attempts_default prog_defs
        gallery_world_def quiet_world_def error_body_def empty_body_def rate_limit_error_def
        example_manager_def new_manager_def get_base_params_def search_data_def)

lemma search_g3:
  "search_faces example_manager gallery_world ''probe'' ''g3''
     \<lparr>posts = Suc 0,
      trace = [DbGetAllStoredFaces,
               RateGate, Post ''search_faces'' ''/search'' (search_data ''g2'') None]\<rparr> =
   Some (Inr found_results, searched_state)"
  by (simp add: search_faces_def Let_def make_request_def attempts_default prog_defs
        gallery_world_def quiet_world_def error_body_def empty_body_def rate_limit_error_def
        example_manager_def new_manager_def get_base_params_def search_data_def
        searched_state_def)

lemma gallery_outcomes:
  "search_outcomes example_verifier gallery_world ''probe'' galleries
     (initial_state\<lparr>trace := trace initial_state @ [DbGetAllStoredFaces]\<rparr>) =
   [(''g2'', Inl (HTTPException 500 ''search_faces failed: INTERNAL_ERROR'')),
    (''g3'', Inr found_results)]"
proof -
  have "fpp_manager example_verifier = example_manager"
    by (simp add: example_verifier_def new_verifier_def)
  then show ?thesis
    by (simp add: galleries_def initial_state_def search_g2 search_g3)
qed

lemma gallery_gathered:
  "gathered example_verifier
     [(''g2'', Inl (HTTPException 500 ''search_faces failed: INTERNAL_ERROR'')),
      (''g3'', Inr found_results)] =
   [\<lparr>m_confidence = 95, m_face_token = ''tokA''\<rparr>,
    \<lparr>m_confidence = 97, m_face_token = ''tokC''\<rparr>]"
  by (simp add: gathered_def above_threshold_def to_match_def found_results_def
        example_verifier_def new_verifier_def)

lemma gallery_sorted:
  "sorted_reverse m_confidence
     [\<lparr>m_confidence = 95, m_face_token = ''tokA''\<rparr>,
      \<lparr>m_confidence = 97, m_face_token = ''tokC''\<rparr>] =
   [\<lparr>m_confidence = 97, m_face_token = ''tokC''\<rparr>,
    \<lparr>m_confidence = 95, m_face_token = ''tokA''\<rparr>]"
  by (simp add: sorted_reverse_def)

lemma gallery_search:
  "search_similar_faces example_verifier gallery_world ''probe'' initial_state =
   Some (Inr [\<lparr>m_confidence = 97, m_face_token = ''tokC''\<rparr>,
              \<lparr>m_confidence = 95, m_face_token = ''tokA''\<rparr>], searched_state)"
proof -
  have m: "fpp_manager example_verifier = example_manager"
    by (simp add: example_verifier_def new_verifier_def)
  have "search_loop example_verifier gallery_world ''probe'' galleries []
          \<lparr>posts = 0, trace = [DbGetAllStoredFaces]\<rparr> =
        Some (Inr [\<lparr>m_confidence = 95, m_face_token = ''tokA''\<rparr>,
                   \<lparr>m_confidence = 97, m_face_token = ''tokC''\<rparr>], searched_state)"
    using gallery_gathered
    by (simp add: galleries_def m search_g2 search_g3 bind_def try_except_def ret_def
          collect_matches_eq gathered_def)
  moreover have "get_all_stored_faces gallery_world = Inr galleries"
    by (simp add: gallery_world_def quiet_world_def)
  ultimately show ?thesis
    by (simp add: search_similar_faces_def try_except_def bind_def emit_def lift_def ret_def
          initial_state_def gallery_sorted)
qed

lemma blurry_detect:
  "detect_face example_manager blurry_world small_image initial_state =
   Some (Inr (Some ''tokA'', Some quality_only), detected_state)"
proof -
  have "get_base_params example_manager @
          [(''return_attributes'', ''gender,age,ethnicity,facequality'')] = detect_data"
    by (simp add: get_base_params_def detect_data_def example_manager_def new_manager_def)
  moreover have "detect_url example_manager = ''/detect''"
    by (simp add: example_manager_def new_manager_def)
  moreover have "make_request example_manager blurry_world ''/detect'' detect_data
      (Some (Encoded QualityLadder 640 480 90 50000)) ''detect_face'' initial_state =
    Some (Inr (Some (empty_body\<lparr>faces := Some [\<lparr>f_face_token = Some ''tokA'',
                                                   f_attributes = Some quality_only\<rparr>]\<rparr>)),
          detected_state)"
    by (simp add: make_request_def attempts_default prog_defs blurry_world_def quiet_world_def
          empty_body_def rate_limit_error_def initial_state_def detected_state_def
          example_manager_def new_manager_def)
  moreover have "face_quality_of quality_only = Inr (JNum 30)"
    by (simp add: face_quality_of_def quality_only_def)
  ultimately show ?thesis
    by (simp add: detect_face_def try_except_def bind_def normalize_small ret_def lift_def
          empty_body_def)
qed

section \<open>The retry loop\<close>

lemma request_loop_retry:
  assumes "int attempt < int (max_retries self) - 1"
    and "retried (http w (posts s))"
  shows "request_loop self w url data files operation (attempt # rest) s =
         request_loop self w url data files operation rest
           (s\<lparr>posts := posts s + 1,
              trace := trace s @ [RateGate, Post operation url data files,
                                  Sleep (backoff self (attempt + 1) (http w (posts s)))]\<rparr>)"
proof (cases "http w (posts s)")
  case (Raises e)
  with assms show ?thesis
    by (cases e) (simp_all add: prog_defs retried_def backoff_def)
next
  case (Response status_code b)
  with assms show ?thesis
    by (cases b) (simp_all add: prog_defs retried_def backoff_def)
qed

lemma request_loop_final:
  assumes "http w (posts s) = Response status_code (Some result)"
    and "\<not> rate_limit_error result \<or> \<not> int attempt < int (max_retries self) - 1"
  shows "request_loop self w url data files operation (attempt # rest) s =
         Some (if status_code \<noteq> 200
               then Inl (HTTPException status_code
                           (operation @ '' failed: '' @ json_dumps w result))
               else case error_message result of
                      Some text \<Rightarrow> Inl (HTTPException 400 (operation @ '' failed: '' @ text))
                    | None \<Rightarrow> Inr (Some result),
               s\<lparr>posts := posts s + 1,
                 trace := trace s @ [RateGate, Post operation url data files]\<rparr>)"
  using assms by (auto simp: prog_defs split: option.splits)

lemma rate_limit_error_busy: "rate_limit_error (error_body ''CONCURRENCY_LIMIT_EXCEEDED'')"
  by (simp add: rate_limit_error_def error_body_def empty_body_def)

lemma rate_limit_error_found:
  "\<not> rate_limit_error (empty_body\<lparr>results := Some found_results\<rparr>)"
  by (simp add: rate_limit_error_def empty_body_def)

lemma rate_limit_error_invalid_key: "\<not> rate_limit_error (error_body ''INVALID_API_KEY'')"
  by (simp add: rate_limit_error_def error_body_def empty_body_def)

section \<open>Claims about the verification flow\<close>

lemma terminates_detect_face: "terminates (detect_face self w image_data)"
  by (auto simp: detect_face_def Let_def
        intro!: terminates_intros terminates_normalize terminates_make_request
        split: option.splits list.splits)

lemma terminates_verify_face: "terminates (verify_face self w image_data)"
  by (auto simp: verify_face_def
        intro!: terminates_intros terminates_detect_face terminates_search_similar_faces
          terminates_save_face_data
        split: option.splits list.splits)

lemma verify_face_never_raises: "verify_face self w image_data s \<noteq> Some (Inl e, s')"
  by (simp add: verify_face_def try_except_Inl ret_eq)

text \<open>
  C1. For every image and every behaviour of the provider and of the persistence layer,
  \<open>verify_face\<close> returns a \<open>VerificationResponse\<close> whose status is \<open>error\<close>,
  \<open>duplicate_found\<close> or \<open>success\<close>: it returns, and what it returns is never an exception.
\<close>

theorem verify_face_always_responds:
  "\<exists>r s'. verify_face self w image_data s = Some (Inr r, s') \<and>
     v_status r \<in> {''error'', ''duplicate_found'', ''success''}"
proof -
  from terminatesD [OF terminates_verify_face, of self w image_data s]
  obtain res s' where res: "verify_face self w image_data s = Some (res, s')"
    by blast
  with verify_face_never_raises [of self w image_data s _ s']
  obtain r where r: "res = Inr r"
    by (cases res) auto
  from verify_face_cases [of self w image_data s r s'] res r
  have "v_status r \<in> {''error'', ''duplicate_found'', ''success''}"
    by (auto simp: error_response_def)
  with res r show ?thesis
    by blast
qed

text \<open>
  C10. \<open>save_face_data\<close> never returns \<open>False\<close>: from every state it returns \<open>True\<close> or
  raises the \<open>HTTPException\<close> of its handler. So \<open>verify_face\<close> never gives the
  \<open>Failed to save face data\<close> response of the branch that tests for \<open>False\<close>.
\<close>

theorem save_face_data_never_false:
  "(\<exists>r s'. save_face_data self w face_token s = Some (r, s') \<and>
      (r = Inr True \<or>
       (\<exists>text. r = Inl (HTTPException 500 (''Error saving face data: '' @ text))))) \<and>
   (\<forall>s'. verify_face self w image_data s \<noteq>
      Some (Inr (error_response ''Failed to save face data''), s'))"
proof
  from terminatesD [OF terminates_save_face_data, of self w face_token s]
  obtain r s' where r: "save_face_data self w face_token s = Some (r, s')"
    by blast
  show "\<exists>r s'. save_face_data self w face_token s = Some (r, s') \<and>
      (r = Inr True \<or>
       (\<exists>text. r = Inl (HTTPException 500 (''Error saving face data: '' @ text))))"
  proof (cases r)
    case (Inl e)
    with r save_face_data_raises [of self w face_token s e s'] show ?thesis
      by auto
  next
    case (Inr b)
    with r save_face_data_returns [of self w face_token s b s'] show ?thesis
      by auto
  qed
next
  show "\<forall>s'. verify_face self w image_data s \<noteq>
      Some (Inr (error_response ''Failed to save face data''), s')"
  proof (intro allI notI)
    fix s'
    assume "verify_face self w image_data s =
      Some (Inr (error_response ''Failed to save face data''), s')"
    from verify_face_cases [OF this] show False
      by (auto simp: error_response_def)
  qed
qed

text \<open>
  C3. Every provider or transport error is surfaced to the caller wrapped with the name of
  the failing operation; in particular an error during the detect operation is surfaced as
  an error and not turned into a result without a face. The code breaks this: when the
  provider rejects the credentials of the detect request, \<open>_make_request\<close> raises the
  \<open>HTTPException\<close> that names \<open>detect_face\<close>, the blanket handler of \<open>detect_face\<close> turns
  it into \<open>(None, None)\<close>, and \<open>verify_face\<close> answers that the image holds no face.
\<close>

theorem detect_error_reported_as_no_face:
  "make_request example_manager rejecting_world ''/detect'' detect_data
     (Some (Encoded QualityLadder 640 480 90 50000)) ''detect_face'' initial_state =
   Some (Inl (HTTPException 401 ''detect_face failed: AUTHENTICATION_ERROR''),
         \<lparr>posts = 1,
          trace = [RateGate,
                   Post ''detect_face'' ''/detect'' detect_data
                     (Some (Encoded QualityLadder 640 480 90 50000))]\<rparr>) \<and>
   detect_face example_manager rejecting_world small_image initial_state =
   Some (Inr (None, None),
         \<lparr>posts = 1,
          trace = [RateGate,
                   Post ''detect_face'' ''/detect'' detect_data
                     (Some (Encoded QualityLadder 640 480 90 50000))]\<rparr>) \<and>
   verify_face example_verifier rejecting_world small_image initial_state =
   Some (Inr (error_response ''No face detected in image''),
         \<lparr>posts = 1,
          trace = [RateGate,
                   Post ''detect_face'' ''/detect'' detect_data
                     (Some (Encoded QualityLadder 640 480 90 50000))]\<rparr>)"
  by (simp only: rejected_request rejected_detect rejected_verify)

text \<open>
  C9. When the persistence layer offers a gallery that the provider no longer knows, the
  registration drops the candidate, creates a fresh gallery and registers the face there.
  The code breaks this: \<open>get_faceset_detail\<close> raises on the provider's error reply, so the
  test \<open>not details or 'error_message' in details\<close> is never reached; \<open>save_face_data\<close>
  fails after the single gallery-detail request, with no gallery created and no face added.
\<close>

theorem stale_gallery_fails_registration:
  "find_available_faceset stale_world = Inr (Some (''faceset_old'', 5)) \<and>
   http stale_world 0 = Response 400 (Some (error_body ''INVALID_OUTER_ID'')) \<and>
   save_face_data example_verifier stale_world ''tokA'' initial_state =
   Some (Inl (HTTPException 500
                ''Error saving face data: get_faceset_detail failed: INVALID_OUTER_ID''),
         \<lparr>posts = 1,
          trace = [DbFindAvailableFaceset, RateGate,
                   Post ''get_faceset_detail'' ''/getdetail'' detail_data None]\<rparr>)"
  by (simp add: stale_save) (simp add: stale_world_def quiet_world_def)

section \<open>Claims about the duplicate search\<close>

text \<open>
  C2. Whatever the provider returns for each gallery, every match in the list that
  \<open>search_similar_faces\<close> returns has a confidence of at least the configured threshold, and
  the list is in descending order of confidence.
\<close>

theorem search_result_above_threshold_sorted:
  assumes "search_similar_faces self w face_token s = Some (Inr result, s')"
  shows "(\<forall>m \<in> set result. confidence_threshold self \<le> m_confidence m) \<and>
         sorted_wrt (\<lambda>a b. m_confidence b \<le> m_confidence a) result"
proof -
  from search_similar_faces_result [OF assms] obtain outcomes where
    "result = sorted_reverse m_confidence (gathered self outcomes)" ..
  then show ?thesis
    by (auto simp: set_sorted_reverse sorted_reverse_descending
          dest: gathered_above_threshold)
qed

theorem search_result_above_threshold_sorted_witness:
  "search_similar_faces example_verifier gallery_world ''probe'' initial_state =
     Some (Inr [\<lparr>m_confidence = 97, m_face_token = ''tokC''\<rparr>,
                \<lparr>m_confidence = 95, m_face_token = ''tokA''\<rparr>], searched_state) \<and>
   confidence_threshold example_verifier \<le> 97 \<and>
   confidence_threshold example_verifier \<le> 95 \<and>
   m_confidence \<lparr>m_confidence = 95, m_face_token = ''tokA''\<rparr> \<le>
     m_confidence \<lparr>m_confidence = 97, m_face_token = ''tokC''\<rparr>"
  using search_result_above_threshold_sorted [OF gallery_search] gallery_search
  by simp

text \<open>
  C7. A gallery whose provider search fails is skipped and the search goes on: whenever the
  persistence layer lists the galleries, \<open>search_similar_faces\<close> returns, and what it returns
  is, sorted, exactly the matches above the threshold of the galleries whose search
  succeeded.
\<close>

theorem failed_gallery_is_skipped:
  assumes "get_all_stored_faces w = Inr facesets"
  shows "\<exists>s'. search_similar_faces self w face_token s =
           Some (Inr (sorted_reverse m_confidence
                        (gathered self (search_outcomes self w face_token facesets
                           (s\<lparr>trace := trace s @ [DbGetAllStoredFaces]\<rparr>)))), s')"
  using assms by (rule search_similar_faces_eq)

theorem failed_gallery_is_skipped_witness:
  "get_all_stored_faces gallery_world = Inr galleries \<and>
   search_outcomes example_verifier gallery_world ''probe'' galleries
     (initial_state\<lparr>trace := trace initial_state @ [DbGetAllStoredFaces]\<rparr>) =
   [(''g2'', Inl (HTTPException 500 ''search_faces failed: INTERNAL_ERROR'')),
    (''g3'', Inr found_results)] \<and>
   (\<exists>s'. search_similar_faces example_verifier gallery_world ''probe'' initial_state =
      Some (Inr [\<lparr>m_confidence = 97, m_face_token = ''tokC''\<rparr>,
                 \<lparr>m_confidence = 95, m_face_token = ''tokA''\<rparr>], s'))"
proof -
  have g: "get_all_stored_faces gallery_world = Inr galleries"
    by (simp add: gallery_world_def quiet_world_def)
  from failed_gallery_is_skipped [OF g, of example_verifier "''probe''" initial_state]
  show ?thesis
    by (simp add: g gallery_outcomes gallery_gathered gallery_sorted)
qed

section \<open>Claims about the attribute gate\<close>

text \<open>
  C8. When the detected face has none of the attributes gender, age and ethnicity, the
  verification ends with the invalid-face response in the state the detection left: nothing
  was called after the detection, which itself makes detect requests only. And a face with
  at least one of the three attributes passes the validation whatever its quality score,
  also below the configured minimum.
\<close>

theorem attribute_gate:
  "(detect_face (fpp_manager self) w image_data s =
      Some (Inr (Some face_token, Some attributes), s1) \<and>
    face_token \<noteq> [] \<and>
    \<not> is_not_none attributes ''gender'' \<and> \<not> is_not_none attributes ''age'' \<and>
    \<not> is_not_none attributes ''ethnicity'' \<and> quality_is_number attributes \<longrightarrow>
      (\<exists>message evs.
         verify_face self w image_data s = Some (Inr (error_response message), s1) \<and>
         (message = ''No face attributes detected'' \<or>
          message = ''Unable to detect human face characteristics'') \<and>
         trace s1 = trace s @ evs \<and> list_all detect_event evs)) \<and>
   ((is_not_none attributes' ''gender'' \<or> is_not_none attributes' ''age'' \<or>
     is_not_none attributes' ''ethnicity'') \<and>
    face_quality_of attributes' = Inr (JNum q) \<and> q < min_face_quality self' \<longrightarrow>
      validate_face_attributes self' attributes' = Inr (True, ''Valid human face detected''))"
proof (intro conjI impI)
  assume a: "detect_face (fpp_manager self) w image_data s =
      Some (Inr (Some face_token, Some attributes), s1) \<and>
    face_token \<noteq> [] \<and>
    \<not> is_not_none attributes ''gender'' \<and> \<not> is_not_none attributes ''age'' \<and>
    \<not> is_not_none attributes ''ethnicity'' \<and> quality_is_number attributes"
  then obtain c cs where token: "face_token = c # cs"
    by (cases face_token) auto
  from a validate_without_attributes [of attributes self] obtain message where
    v: "validate_face_attributes self attributes = Inr (False, message)" and
    m: "message = ''No face attributes detected'' \<or>
        message = ''Unable to detect human face characteristics''"
    by auto
  from a token v have "verify_face self w image_data s = Some (Inr (error_response message), s1)"
    by (simp add: verify_face_def try_except_def bind_def lift_def ret_def)
  moreover from a detect_face_trace [of "fpp_manager self" w image_data s _ s1]
  obtain evs where "trace s1 = trace s @ evs" "list_all detect_event evs"
    by blast
  ultimately show "\<exists>message evs.
         verify_face self w image_data s = Some (Inr (error_response message), s1) \<and>
         (message = ''No face attributes detected'' \<or>
          message = ''Unable to detect human face characteristics'') \<and>
         trace s1 = trace s @ evs \<and> list_all detect_event evs"
    using m by blast
next
  assume "(is_not_none attributes' ''gender'' \<or> is_not_none attributes' ''age'' \<or>
     is_not_none attributes' ''ethnicity'') \<and>
    face_quality_of attributes' = Inr (JNum q) \<and> q < min_face_quality self'"
  then show "validate_face_attributes self' attributes' =
      Inr (True, ''Valid human face detected'')"
    by (simp add: validate_low_quality)
qed

theorem attribute_gate_witness:
  "detect_face (fpp_manager example_verifier) blurry_world small_image initial_state =
     Some (Inr (Some ''tokA'', Some quality_only), detected_state) \<and>
   \<not> is_not_none quality_only ''gender'' \<and> \<not> is_not_none quality_only ''age'' \<and>
   \<not> is_not_none quality_only ''ethnicity'' \<and> quality_is_number quality_only \<and>
   (\<exists>message evs.
      verify_face example_verifier blurry_world small_image initial_state =
        Some (Inr (error_response message), detected_state) \<and>
      (message = ''No face attributes detected'' \<or>
       message = ''Unable to detect human face characteristics'') \<and>
      trace detected_state = trace initial_state @ evs \<and> list_all detect_event evs) \<and>
   is_not_none gender_and_quality ''gender'' \<and>
   face_quality_of gender_and_quality = Inr (JNum 30) \<and>
   (30 :: real) < min_face_quality example_verifier \<and>
   validate_face_attributes example_verifier gender_and_quality =
     Inr (True, ''Valid human face detected'')"
proof -
  have m: "fpp_manager example_verifier = example_manager"
    by (simp add: example_verifier_def new_verifier_def)
  have h1: "\<not> is_not_none quality_only ''gender'' \<and> \<not> is_not_none quality_only ''age'' \<and>
      \<not> is_not_none quality_only ''ethnicity'' \<and> quality_is_number quality_only"
    by (simp add: is_not_none_def quality_only_def quality_is_number_def face_quality_of_def)
  have h2: "is_not_none gender_and_quality ''gender'' \<and>
      face_quality_of gender_and_quality = Inr (JNum 30) \<and>
      (30 :: real) < min_face_quality example_verifier"
    by (simp add: is_not_none_def gender_and_quality_def face_quality_of_def
          example_verifier_def new_verifier_def)
  from attribute_gate [of example_verifier blurry_world small_image initial_state "''tokA''"
      quality_only detected_state gender_and_quality 30 example_verifier]
    blurry_detect m h1 h2
  show ?thesis
    by simp
qed

section \<open>Claims about the retry policy\<close>

text \<open>
  C4, as the code has it. With the three attempts of the default configuration: a reply
  that reports the concurrency limit while an attempt is left makes the client sleep
  \<open>retry_delay\<close> times the number of the attempt and try again (a body that does not parse
  and a transport failure make it sleep \<open>retry_delay\<close> and try again). The first parsed
  reply that is no rate-limit report, and the third reply, end the run at once, with no
  sleep and no further request: a reply with a status code other than 200 is surfaced as
  an \<open>HTTPException\<close> with that status code, the operation name and the serialized body; a
  reply with status 200 and an \<open>error_message\<close> is surfaced with status code 400, the
  operation name and the message; any other reply is returned.
\<close>

theorem retry_policy:
  assumes "max_retries self = 3" and "k < 3"
    and "\<forall>i<k. retried (http w (posts s + i))"
    and "http w (posts s + k) = Response status_code (Some result)"
    and "\<not> rate_limit_error result \<or> k = 2"
  shows "make_request self w url data files operation s =
         Some (if status_code \<noteq> 200
               then Inl (HTTPException status_code
                           (operation @ '' failed: '' @ json_dumps w result))
               else case error_message result of
                      Some text \<Rightarrow> Inl (HTTPException 400 (operation @ '' failed: '' @ text))
                    | None \<Rightarrow> Inr (Some result),
               s\<lparr>posts := posts s + k + 1,
                 trace := trace s @ retried_events self w operation url data files (posts s) k @
                          [RateGate, Post operation url data files]\<rparr>)"
proof -
  have attempts: "[0 ..< max_retries self] = [0, 1, 2]"
    by (simp add: assms(1) attempts_default)
  have start: "make_request self w url data files operation s =
      request_loop self w url data files operation [0, 1, 2] s"
    by (simp only: make_request_def attempts)
  from assms(2) consider "k = 0" | "k = 1" | "k = 2"
    by linarith
  then show ?thesis
  proof cases
    case 1
    from assms(4) 1 have r0: "http w (posts s) = Response status_code (Some result)"
      by simp
    from assms(5) 1 have f0: "\<not> rate_limit_error result \<or> \<not> int 0 < int (max_retries self) - 1"
      by simp
    note start
    also note request_loop_final [OF r0 f0]
    finally show ?thesis
      using 1 by (simp add: retried_events_def)
  next
    case 2
    have r0: "retried (http w (posts s))"
      using assms(3) [rule_format, of 0] 2 by simp
    let ?s1 = "s\<lparr>posts := posts s + 1,
                 trace := trace s @ [RateGate, Post operation url data files,
                                     Sleep (backoff self (0 + 1) (http w (posts s)))]\<rparr>"
    from assms(4) 2 have r1: "http w (posts ?s1) = Response status_code (Some result)"
      by simp
    from assms(5) 2 have f1: "\<not> rate_limit_error result \<or> \<not> int 1 < int (max_retries self) - 1"
      by simp
    note start
    also have "request_loop self w url data files operation [0, 1, 2] s =
        request_loop self w url data files operation [1, 2] ?s1"
      by (rule request_loop_retry [OF _ r0]) (simp add: assms(1))
    also note request_loop_final [OF r1 f1]
    finally show ?thesis
      using 2 by (simp add: retried_events_def)
  next
    case 3
    have r0: "retried (http w (posts s))"
      using assms(3) [rule_format, of 0] 3 by simp
    let ?s1 = "s\<lparr>posts := posts s + 1,
                 trace := trace s @ [RateGate, Post operation url data files,
                                     Sleep (backoff self (0 + 1) (http w (posts s)))]\<rparr>"
    have r1: "retried (http w (posts ?s1))"
      using assms(3) [rule_format, of 1] 3 by simp
    let ?s2 = "?s1\<lparr>posts := posts ?s1 + 1,
                   trace := trace ?s1 @ [RateGate, Post operation url data files,
                                         Sleep (backoff self (1 + 1) (http w (posts ?s1)))]\<rparr>"
    from assms(4) 3 have r2: "http w (posts ?s2) = Response status_code (Some result)"
      by (simp add: numeral_2_eq_2)
    have f2: "\<not> rate_limit_error result \<or> \<not> int 2 < int (max_retries self) - 1"
      by (simp add: assms(1))
    note start
    also have "request_loop self w url data files operation [0, 1, 2] s =
        request_loop self w url data files operation [1, 2] ?s1"
      by (rule request_loop_retry [OF _ r0]) (simp add: assms(1))
    also have "\<dots> = request_loop self w url data files operation [2] ?s2"
      by (rule request_loop_retry [OF _ r1]) (simp add: assms(1))
    also note request_loop_final [OF r2 f2]
    finally show ?thesis
      using 3 by (simp add: retried_events_def upt_rec numeral_2_eq_2)
  qed
qed

theorem retry_policy_witness:
  "http busy_world 0 = Response 403 (Some (error_body ''CONCURRENCY_LIMIT_EXCEEDED'')) \<and>
   rate_limit_error (error_body ''CONCURRENCY_LIMIT_EXCEEDED'') \<and>
   http busy_world 1 = Response 200 (Some (empty_body\<lparr>results := Some found_results\<rparr>)) \<and>
   make_request example_manager busy_world ''/search'' (search_data ''g2'') None
     ''search_faces'' initial_state =
   Some (Inr (Some (empty_body\<lparr>results := Some found_results\<rparr>)),
         \<lparr>posts = 2,
          trace = [RateGate, Post ''search_faces'' ''/search'' (search_data ''g2'') None,
                   Sleep 2,
                   RateGate, Post ''search_faces'' ''/search'' (search_data ''g2'') None]\<rparr>)"
proof -
  have m: "max_retries example_manager = 3" "retry_delay example_manager = 2"
    by (simp_all add: example_manager_def new_manager_def)
  have h0: "http busy_world 0 = Response 403 (Some (error_body ''CONCURRENCY_LIMIT_EXCEEDED''))"
    and h1: "http busy_world 1 = Response 200 (Some (empty_body\<lparr>results := Some found_results\<rparr>))"
    by (simp_all add: busy_world_def quiet_world_def)
  have p: "posts initial_state = 0" "trace initial_state = []"
    by (simp_all add: initial_state_def)
  have a3: "\<forall>i<1. retried (http busy_world (posts initial_state + i))"
    by (simp add: p h0 retried_def rate_limit_error_busy)
  have a4: "http busy_world (posts initial_state + 1) =
      Response 200 (Some (empty_body\<lparr>results := Some found_results\<rparr>))"
    using h1 by (simp add: p)
  have a5: "\<not> rate_limit_error (empty_body\<lparr>results := Some found_results\<rparr>) \<or> (1::nat) = 2"
    by (simp add: rate_limit_error_found)
  have e: "error_message (empty_body\<lparr>results := Some found_results\<rparr>) = None"
    by (simp add: empty_body_def)
  from retry_policy [OF m(1) _ a3 a4 a5, of "''/search''" "search_data ''g2''" None
      "''search_faces''"] h0 h1
  show ?thesis
    by (simp add: rate_limit_error_busy e retried_events_def backoff_def m(2)
          initial_state_def)
qed

text \<open>
  C4 as stated fails: the provider answers with status 200 and an \<open>error_message\<close> that is
  no rate-limit report. The failure surfaced carries status code 400, not the provider's.
\<close>

theorem provider_status_not_carried:
  "http invalid_key_world 0 = Response 200 (Some (error_body ''INVALID_API_KEY'')) \<and>
   \<not> rate_limit_error (error_body ''INVALID_API_KEY'') \<and>
   make_request example_manager invalid_key_world ''/search'' (search_data ''g2'') None
     ''search_faces'' initial_state =
   Some (Inl (HTTPException 400 ''search_faces failed: INVALID_API_KEY''),
         \<lparr>posts = 1,
          trace = [RateGate, Post ''search_faces'' ''/search'' (search_data ''g2'') None]\<rparr>) \<and>
   \<not> carries_provider_status (http invalid_key_world 0)
       (Inl (HTTPException 400 ''search_faces failed: INVALID_API_KEY''))"
proof -
  have h0: "http invalid_key_world 0 = Response 200 (Some (error_body ''INVALID_API_KEY''))"
    by (simp add: invalid_key_world_def quiet_world_def)
  have "make_request example_manager invalid_key_world ''/search'' (search_data ''g2'') None
     ''search_faces'' initial_state =
   Some (Inl (HTTPException 400 ''search_faces failed: INVALID_API_KEY''),
         \<lparr>posts = 1,
          trace = [RateGate, Post ''search_faces'' ''/search'' (search_data ''g2'') None]\<rparr>)"
    by (simp add: make_request_def attempts_default prog_defs invalid_key_world_def
          quiet_world_def error_body_def empty_body_def rate_limit_error_def initial_state_def
          example_manager_def new_manager_def)
  with h0 rate_limit_error_invalid_key show ?thesis
    by (simp add: carries_provider_status_def)
qed

end
